theory Spec2Isabelle
  imports Main "HOL-Library.Word"
begin

unbundle bit_operations_syntax

section \<open>Data model\<close>

type_synonym byte = "8 word"
type_synonym word16 = "16 word"

text \<open>
  The state of the ULA (\<open>src/spectrum/ula.js\<close>): the scanline counter and the
  interrupt request, the EAR input, and what the two port methods read and write. The
  key-name table is constant and left out. Counters are JavaScript numbers that only
  ever hold non-negative integers here, hence \<open>nat\<close>.
\<close>

record ULA =
  currentScanline :: nat
  scanlineTStates :: nat
  interruptRequested :: bool
  earBit :: bool
  borderColor :: nat
  speakerState :: bool
  keyboardState :: "byte list"
  floatingBusValue :: byte
  borderHistory :: "(int \<times> nat) list"
  frameStartBorderColor :: nat
  frameStartTState :: nat

text \<open>
  \<open>Memory\<close> of \<open>src/spectrum/memory.js\<close>: two byte arrays and the reference to the
  ULA, which is \<open>null\<close> until \<open>setULA\<close> is called.
\<close>

record Memory =
  rom :: "byte list"
  ram :: "byte list"
  ula :: "ULA option"

definition contentionPattern :: "nat list" where
  "contentionPattern = [6, 5, 4, 3, 2, 1, 0, 0]"

definition getCurrentScanline :: "ULA \<Rightarrow> nat" where
  "getCurrentScanline u = currentScanline u"

text \<open>\<open>Memory.getContentionDelay(addr)\<close>; the address arrives already masked.\<close>

definition getContentionDelay :: "Memory \<Rightarrow> nat \<Rightarrow> nat" where
  "getContentionDelay m addr =
     (case ula m of
        None \<Rightarrow> 0
      | Some u \<Rightarrow>
          if addr < 0x4000 \<or> addr \<ge> 0x8000 then 0
          else
            let scanline = getCurrentScanline u;
                tstate = scanlineTStates u
            in if scanline < 64 \<or> scanline \<ge> 256 then 0
               else if tstate < 128 then contentionPattern ! (tstate mod 8)
               else 0)"

text \<open>
  \<open>Memory.read(addr)\<close>, here \<open>mem_read\<close>: \<open>addr &= 0xffff\<close> is \<open>mod 65536\<close> on an integer; the delay
  is computed and dropped, as in the source.
\<close>

definition mem_read :: "Memory \<Rightarrow> nat \<Rightarrow> byte" where
  "mem_read m addr0 =
     (let addr = addr0 mod 65536;
          delay = getContentionDelay m addr
      in if addr < 0x4000 then rom m ! addr
         else ram m ! (addr - 0x4000))"

definition readWithContention :: "Memory \<Rightarrow> nat \<Rightarrow> byte \<times> nat" where
  "readWithContention m addr0 =
     (let addr = addr0 mod 65536;
          delay = getContentionDelay m addr;
          val = (if addr < 0x4000 then rom m ! addr else ram m ! (addr - 0x4000))
      in (val, delay))"

text \<open>
  \<open>Memory.write(addr, value)\<close>, here \<open>mem_write\<close>: \<open>value &= 0xff\<close> is the conversion of the number to
  a byte. A typed-array store out of range is ignored, as \<open>list_update\<close> is.
\<close>

definition mem_write :: "Memory \<Rightarrow> nat \<Rightarrow> nat \<Rightarrow> Memory" where
  "mem_write m addr0 value0 =
     (let addr = addr0 mod 65536;
          val = (of_nat value0 :: byte)
      in if addr < 0x4000 then m
         else m\<lparr>ram := (ram m)[addr - 0x4000 := val]\<rparr>)"

definition writeWithContention :: "Memory \<Rightarrow> nat \<Rightarrow> nat \<Rightarrow> nat \<times> Memory" where
  "writeWithContention m addr0 value0 =
     (let addr = addr0 mod 65536;
          val = (of_nat value0 :: byte);
          delay = getContentionDelay m addr
      in (delay, if addr \<ge> 0x4000 then m\<lparr>ram := (ram m)[addr - 0x4000 := val]\<rparr> else m))"

text \<open>A call of one of the two write methods, for sequences of writes.\<close>

datatype write_call = Write nat nat | WriteWithContention nat nat

fun do_write :: "Memory \<Rightarrow> write_call \<Rightarrow> Memory" where
  "do_write m (Write addr v) = mem_write m addr v"
| "do_write m (WriteWithContention addr v) = snd (writeWithContention m addr v)"

definition do_writes :: "Memory \<Rightarrow> write_call list \<Rightarrow> Memory" where
  "do_writes m ws = foldl do_write m ws"

text \<open>
  \<open>Z80CPU\<close> of \<open>src/core/cpu.js\<close>. The 8-bit registers \<open>a, f, b, ...\<close> are the fields
  \<open>reg_a, reg_f, reg_b, ...\<close>; the shadow registers \<open>a_, f_, ...\<close> are \<open>reg_a', ...\<close>.
  \<open>memory\<close> is \<open>null\<close> until the machine connects it. \<open>tstates\<close> is never reset.
\<close>

record Z80CPU =
  reg_a :: byte
  reg_f :: byte
  reg_b :: byte
  reg_c :: byte
  reg_d :: byte
  reg_e :: byte
  reg_h :: byte
  reg_l :: byte
  reg_a' :: byte
  reg_f' :: byte
  reg_b' :: byte
  reg_c' :: byte
  reg_d' :: byte
  reg_e' :: byte
  reg_h' :: byte
  reg_l' :: byte
  ix :: word16
  iy :: word16
  sp :: word16
  pc :: word16
  reg_i :: byte
  reg_r :: byte
  iff1 :: bool
  iff2 :: bool
  im :: nat
  enableInterruptsPending :: bool
  halted :: bool
  tstates :: nat
  memory :: "Memory option"

section \<open>CPU helpers\<close>

definition pair16 :: "byte \<Rightarrow> byte \<Rightarrow> word16" where
  "pair16 hi lo = push_bit 8 (ucast hi) OR ucast lo"

definition hi8 :: "word16 \<Rightarrow> byte" where
  "hi8 v = ucast (drop_bit 8 v AND 0xff)"

definition lo8 :: "word16 \<Rightarrow> byte" where
  "lo8 v = ucast (v AND 0xff)"

definition getAF :: "Z80CPU \<Rightarrow> word16" where "getAF s = pair16 (reg_a s) (reg_f s)"
definition getBC :: "Z80CPU \<Rightarrow> word16" where "getBC s = pair16 (reg_b s) (reg_c s)"
definition getDE :: "Z80CPU \<Rightarrow> word16" where "getDE s = pair16 (reg_d s) (reg_e s)"
definition getHL :: "Z80CPU \<Rightarrow> word16" where "getHL s = pair16 (reg_h s) (reg_l s)"

definition setAF :: "Z80CPU \<Rightarrow> word16 \<Rightarrow> Z80CPU" where
  "setAF s v = s\<lparr>reg_a := hi8 v, reg_f := lo8 v\<rparr>"
definition setBC :: "Z80CPU \<Rightarrow> word16 \<Rightarrow> Z80CPU" where
  "setBC s v = s\<lparr>reg_b := hi8 v, reg_c := lo8 v\<rparr>"
definition setDE :: "Z80CPU \<Rightarrow> word16 \<Rightarrow> Z80CPU" where
  "setDE s v = s\<lparr>reg_d := hi8 v, reg_e := lo8 v\<rparr>"
definition setHL :: "Z80CPU \<Rightarrow> word16 \<Rightarrow> Z80CPU" where
  "setHL s v = s\<lparr>reg_h := hi8 v, reg_l := lo8 v\<rparr>"

definition FLAG_C :: byte where "FLAG_C = 0x01"
definition FLAG_N :: byte where "FLAG_N = 0x02"
definition FLAG_PV :: byte where "FLAG_PV = 0x04"
definition FLAG_X :: byte where "FLAG_X = 0x08"
definition FLAG_H :: byte where "FLAG_H = 0x10"
definition FLAG_Y :: byte where "FLAG_Y = 0x20"
definition FLAG_Z :: byte where "FLAG_Z = 0x40"
definition FLAG_S :: byte where "FLAG_S = 0x80"

definition getFlag :: "Z80CPU \<Rightarrow> byte \<Rightarrow> bool" where
  "getFlag s flag = (reg_f s AND flag \<noteq> 0)"

definition setFlag :: "Z80CPU \<Rightarrow> byte \<Rightarrow> bool \<Rightarrow> Z80CPU" where
  "setFlag s flag val =
     (if val then s\<lparr>reg_f := reg_f s OR flag\<rparr>
      else s\<lparr>reg_f := reg_f s AND NOT flag\<rparr>)"

text \<open>
  \<open>readMem\<close> and \<open>writeMem\<close>: the masks \<open>addr & 0xffff\<close> and \<open>val & 0xff\<close> are the
  types \<open>word16\<close> and \<open>byte\<close> of the arguments.
\<close>

definition readMem :: "Z80CPU \<Rightarrow> word16 \<Rightarrow> byte" where
  "readMem s addr = (case memory s of None \<Rightarrow> 0 | Some m \<Rightarrow> mem_read m (unat addr))"

definition writeMem :: "Z80CPU \<Rightarrow> word16 \<Rightarrow> byte \<Rightarrow> Z80CPU" where
  "writeMem s addr val =
     (case memory s of
        None \<Rightarrow> s
      | Some m \<Rightarrow> s\<lparr>memory := Some (mem_write m (unat addr) (unat val))\<rparr>)"

definition readMemWord :: "Z80CPU \<Rightarrow> word16 \<Rightarrow> word16" where
  "readMemWord s addr =
     (let low = readMem s addr;
          high = readMem s (addr + 1)
      in pair16 high low)"

definition push :: "Z80CPU \<Rightarrow> word16 \<Rightarrow> Z80CPU" where
  "push s val =
     (let s1 = s\<lparr>sp := sp s - 1\<rparr>;
          s2 = writeMem s1 (sp s1) (hi8 val);
          s3 = s2\<lparr>sp := sp s2 - 1\<rparr>
      in writeMem s3 (sp s3) (lo8 val))"

definition pop :: "Z80CPU \<Rightarrow> word16 \<times> Z80CPU" where
  "pop s =
     (let low = readMem s (sp s);
          s1 = s\<lparr>sp := sp s + 1\<rparr>;
          high = readMem s1 (sp s1);
          s2 = s1\<lparr>sp := sp s1 + 1\<rparr>
      in (pair16 high low, s2))"

definition incR :: "Z80CPU \<Rightarrow> Z80CPU" where
  "incR s = s\<lparr>reg_r := (reg_r s AND 0x80) OR ((reg_r s + 1) AND 0x7f)\<rparr>"

text \<open>\<open>Z80CPU.interrupt()\<close>.\<close>

definition interrupt :: "Z80CPU \<Rightarrow> Z80CPU" where
  "interrupt s =
     (if \<not> iff1 s \<or> enableInterruptsPending s then s
      else
        let s1 = s\<lparr>halted := False, iff1 := False, iff2 := False\<rparr>
        in if im s1 = 0 then
             (let s2 = push s1 (pc s1) in s2\<lparr>pc := 0x0038, tstates := tstates s2 + 13\<rparr>)
           else if im s1 = 1 then
             (let s2 = push s1 (pc s1) in s2\<lparr>pc := 0x0038, tstates := tstates s2 + 13\<rparr>)
           else
             (let vector = push_bit 8 (ucast (reg_i s1)) OR (0xff :: word16);
                  s2 = push s1 (pc s1);
                  s3 = s2\<lparr>pc := readMemWord s2 vector\<rparr>
              in s3\<lparr>tstates := tstates s3 + 19\<rparr>))"

text \<open>The state the constructor of \<open>Z80CPU\<close> builds.\<close>

definition Z80CPU_new :: Z80CPU where
  "Z80CPU_new =
     \<lparr>reg_a = 0, reg_f = 0, reg_b = 0, reg_c = 0, reg_d = 0, reg_e = 0, reg_h = 0, reg_l = 0,
      reg_a' = 0, reg_f' = 0, reg_b' = 0, reg_c' = 0, reg_d' = 0, reg_e' = 0, reg_h' = 0,
      reg_l' = 0, ix = 0, iy = 0, sp = 0, pc = 0, reg_i = 0, reg_r = 0,
      iff1 = False, iff2 = False, im = 0, enableInterruptsPending = False,
      halted = False, tstates = 0, memory = None\<rparr>"

text \<open>The state the constructor of \<open>Memory\<close> builds: zero-filled arrays, no ULA.\<close>

definition Memory_new :: Memory where
  "Memory_new = \<lparr>rom = replicate 16384 0, ram = replicate 49152 0, ula = None\<rparr>"

definition setULA :: "Memory \<Rightarrow> ULA \<Rightarrow> Memory" where
  "setULA m u = m\<lparr>ula := Some u\<rparr>"

section \<open>ULA: scanline counter and ports\<close>

text \<open>The state the constructor builds.\<close>

definition ULA_new :: ULA where
  "ULA_new = \<lparr>currentScanline = 0, scanlineTStates = 0, interruptRequested = False,
              earBit = True, borderColor = 7, speakerState = False,
              keyboardState = replicate 8 0xff, floatingBusValue = 0xff,
              borderHistory = [], frameStartBorderColor = 7, frameStartTState = 0\<rparr>"

definition TSTATES_PER_SCANLINE :: nat where "TSTATES_PER_SCANLINE = 224"
definition TOTAL_SCANLINES :: nat where "TOTAL_SCANLINES = 312"

text \<open>The \<open>while\<close> loop of \<open>ULA.addCycles\<close>.\<close>

function addCycles_loop :: "ULA \<Rightarrow> ULA" where
  "addCycles_loop u =
     (if scanlineTStates u \<ge> TSTATES_PER_SCANLINE then
        let u1 = u\<lparr>scanlineTStates := scanlineTStates u - TSTATES_PER_SCANLINE\<rparr>;
            u2 = u1\<lparr>currentScanline := currentScanline u1 + 1\<rparr>;
            u3 = (if currentScanline u2 \<ge> TOTAL_SCANLINES
                  then u2\<lparr>currentScanline := 0, interruptRequested := True\<rparr>
                  else u2)
        in addCycles_loop u3
      else u)"
  by pat_completeness auto
termination
  by (relation "measure scanlineTStates") (auto simp: TSTATES_PER_SCANLINE_def)

definition addCycles :: "ULA \<Rightarrow> nat \<Rightarrow> ULA" where
  "addCycles u cycles = addCycles_loop (u\<lparr>scanlineTStates := scanlineTStates u + cycles\<rparr>)"

definition checkInterrupt :: "ULA \<Rightarrow> bool \<times> ULA" where
  "checkInterrupt u =
     (let requested = interruptRequested u
      in (requested, u\<lparr>interruptRequested := False\<rparr>))"

definition setTapeInput :: "ULA \<Rightarrow> nat \<Rightarrow> ULA" where
  "setTapeInput u b = u\<lparr>earBit := (b \<noteq> 0)\<rparr>"

text \<open>
  \<open>ULA.read(port)\<close>. \<open>(port >> 8) & 0xff\<close> is \<open>port div 256 mod 256\<close>; a row past the
  end of the keyboard array would read \<open>undefined\<close>, which \<open>&=\<close> turns into 0.
\<close>

definition ULA_read :: "ULA \<Rightarrow> nat \<Rightarrow> byte \<times> ULA" where
  "ULA_read u port =
     (if port mod 2 = 0 then
        let highByte = port div 256 mod 256;
            result0 = foldl (\<lambda>result row.
                         if \<not> bit highByte row
                         then result AND (if row < length (keyboardState u)
                                          then keyboardState u ! row else 0)
                         else result) (0xff :: byte) [0 ..< 8];
            result = (if earBit u then result0 OR 0x40 else result0 AND NOT 0x40)
        in (result, u\<lparr>floatingBusValue := result\<rparr>)
      else (floatingBusValue u, u))"

text \<open>
  \<open>ULA.write(port, value)\<close>; \<open>cpu_tstates\<close> is \<open>this.cpu.tstates\<close>, read through the
  ULA's reference to the CPU. The debug log is left out.
\<close>

definition ULA_write :: "ULA \<Rightarrow> nat \<Rightarrow> nat \<Rightarrow> nat \<Rightarrow> ULA" where
  "ULA_write u cpu_tstates port0 value0 =
     (let port = port0 mod 256;
          val = value0 mod 256
      in if port mod 2 = 0 then
           let newBorderColor = val mod 8;
               u1 = (if newBorderColor \<noteq> borderColor u then
                       (let tstate = int cpu_tstates - int (frameStartTState u);
                            u' = u\<lparr>borderHistory := borderHistory u @ [(tstate, newBorderColor)]\<rparr>
                        in u'\<lparr>borderColor := newBorderColor\<rparr>)
                     else u);
               micBit = bit val 3;
               speakerBit = bit val 4;
               newSpeakerState = (micBit \<or> speakerBit)
           in u1\<lparr>speakerState := newSpeakerState\<rparr>
         else u)"

text \<open>\<open>resetFrameTStates()\<close>, with \<open>this.cpu.tstates\<close> as argument.\<close>

definition resetFrameTStates :: "ULA \<Rightarrow> nat \<Rightarrow> ULA" where
  "resetFrameTStates u cpu_tstates =
     u\<lparr>frameStartBorderColor := borderColor u, frameStartTState := cpu_tstates,
       borderHistory := []\<rparr>"

section \<open>Instructions and decoder\<close>

text \<open>
  Entries of \<open>instructionTable\<close> (\<open>src/instructions/base.js\<close>) and of
  \<open>edInstructionTable\<close>: the \<open>execute\<close> function of each.
\<close>

definition op_NOP :: "Z80CPU \<Rightarrow> Z80CPU" where
  "op_NOP s = s\<lparr>tstates := tstates s + 4\<rparr>"

definition op_DI :: "Z80CPU \<Rightarrow> Z80CPU" where
  "op_DI s = (let s1 = s\<lparr>iff1 := False, iff2 := False\<rparr> in s1\<lparr>tstates := tstates s1 + 4\<rparr>)"

definition op_EI :: "Z80CPU \<Rightarrow> Z80CPU" where
  "op_EI s = (let s1 = s\<lparr>enableInterruptsPending := True\<rparr> in s1\<lparr>tstates := tstates s1 + 4\<rparr>)"

text \<open>\<open>POP rp\<close> and \<open>PUSH rp\<close>, \<open>rp\<close> the index into \<open>['bc', 'de', 'hl', 'af']\<close>.\<close>

definition op_POP :: "nat \<Rightarrow> Z80CPU \<Rightarrow> Z80CPU" where
  "op_POP rp s =
     (let (val, s1) = pop s;
          s2 = (if rp = 3 then setAF s1 val
                else if rp = 2 then setHL s1 val
                else if rp = 1 then setDE s1 val
                else setBC s1 val)
      in s2\<lparr>tstates := tstates s2 + 10\<rparr>)"

definition op_PUSH :: "nat \<Rightarrow> Z80CPU \<Rightarrow> Z80CPU" where
  "op_PUSH rp s =
     (let val = (if rp = 3 then getAF s
                 else if rp = 2 then getHL s
                 else if rp = 1 then getDE s
                 else getBC s);
          s1 = push s val
      in s1\<lparr>tstates := tstates s1 + 11\<rparr>)"

definition ed_LDI :: "Z80CPU \<Rightarrow> Z80CPU" where
  "ed_LDI s =
     (let val = readMem s (getHL s);
          s1 = writeMem s (getDE s) val;
          s2 = setHL s1 (getHL s1 + 1);
          s3 = setDE s2 (getDE s2 + 1);
          s4 = setBC s3 (getBC s3 - 1);
          s5 = setFlag s4 FLAG_H False;
          s6 = setFlag s5 FLAG_PV (getBC s5 \<noteq> 0);
          s7 = setFlag s6 FLAG_N False;
          n = unat val + unat (reg_a s7);
          s8 = setFlag s7 FLAG_Y (n AND 0x02 \<noteq> 0);
          s9 = setFlag s8 FLAG_X (n AND 0x08 \<noteq> 0)
      in s9\<lparr>tstates := tstates s9 + 16\<rparr>)"

definition ed_LDIR :: "Z80CPU \<Rightarrow> Z80CPU" where
  "ed_LDIR s =
     (let val = readMem s (getHL s);
          s1 = writeMem s (getDE s) val;
          s2 = setHL s1 (getHL s1 + 1);
          s3 = setDE s2 (getDE s2 + 1);
          s4 = setBC s3 (getBC s3 - 1);
          s5 = (if getBC s4 \<noteq> 0
                then (let s4' = s4\<lparr>pc := pc s4 - 2\<rparr> in s4'\<lparr>tstates := tstates s4' + 21\<rparr>)
                else s4\<lparr>tstates := tstates s4 + 16\<rparr>);
          s6 = setFlag s5 FLAG_H False;
          s7 = setFlag s6 FLAG_PV False;
          s8 = setFlag s7 FLAG_N False;
          n = unat val + unat (reg_a s8);
          s9 = setFlag s8 FLAG_Y (n AND 0x02 \<noteq> 0)
      in setFlag s9 FLAG_X (n AND 0x08 \<noteq> 0))"

datatype error = UnknownOpcode | TypeError | OutOfFuel | NotModelled

text \<open>
  What the \<open>execute\<close> function of a table entry does. It acts on the CPU and on the
  memory connected to it, and it reaches the ULA, which is the CPU's \<open>io\<close>, through
  \<open>cpu.portIn\<close> and \<open>cpu.portOut\<close> only; it may end with an exception. So an
  execution is the CPU it ends with, or an exception, or a port read followed by what is
  done with the byte read, or a port write (with \<open>cpu.tstates\<close> as it stands at the
  write, the port and the value) followed by the rest.
\<close>

datatype step =
    Done Z80CPU
  | Fail error
  | PortIn nat "byte \<Rightarrow> step"
  | PortOut nat nat nat step

type_synonym instruction_table = "byte \<Rightarrow> (Z80CPU \<Rightarrow> step) option"

text \<open>
  An execution run against the ULA: \<open>portIn(port)\<close> is \<open>io.read(port & 0xffff)\<close> and
  \<open>portOut(port, val)\<close> is \<open>io.write(port & 0xffff, val & 0xff)\<close>.
\<close>

primrec run_io :: "step \<Rightarrow> ULA \<Rightarrow> error + (Z80CPU \<times> ULA)" where
  "run_io (Done c) = (\<lambda>u. Inr (c, u))"
| "run_io (Fail e) = (\<lambda>u. Inl e)"
| "run_io (PortIn port k) =
     (\<lambda>u. let (v, u1) = ULA_read u (port mod 65536) in run_io (k v) u1)"
| "run_io (PortOut cpu_tstates port val k) =
     (\<lambda>u. run_io k (ULA_write u cpu_tstates (port mod 65536) (val mod 256)))"

text \<open>
  \<open>InstructionDecoder\<close> of \<open>src/decoder/decoder.js\<close>; the trace log is left out. The
  instruction table is an argument, as it is of \<open>executeOpcode(opcode, table)\<close>: what
  is proved below of \<open>executeInstruction\<close> holds for every table that has the entries
  named in the statement.
\<close>

definition fetchByte :: "Z80CPU \<Rightarrow> byte \<times> Z80CPU" where
  "fetchByte s =
     (let byte = readMem s (pc s);
          s1 = s\<lparr>pc := pc s + 1\<rparr>
      in (byte, incR s1))"

definition executeOpcode ::
  "byte \<Rightarrow> instruction_table \<Rightarrow> Z80CPU \<Rightarrow> ULA \<Rightarrow> error + (Z80CPU \<times> ULA)" where
  "executeOpcode opcode table s u =
     (case table opcode of
        None \<Rightarrow> Inl UnknownOpcode
      | Some execute \<Rightarrow> run_io (execute s) u)"

definition executeInstruction ::
  "instruction_table \<Rightarrow> Z80CPU \<Rightarrow> ULA \<Rightarrow> error + (Z80CPU \<times> ULA)" where
  "executeInstruction table s u =
     (if halted s then Inr (s\<lparr>tstates := tstates s + 4\<rparr>, u)
      else
        let (opcode, s1) = fetchByte s
        in case executeOpcode opcode table s1 u of
             Inl e \<Rightarrow> Inl e
           | Inr (s2, u2) \<Rightarrow>
               if enableInterruptsPending s2
               then Inr (s2\<lparr>iff1 := True, iff2 := True, enableInterruptsPending := False\<rparr>, u2)
               else Inr (s2, u2))"

text \<open>
  The entry \<open>instructionTable[0xfb]\<close> (EI) and the entry \<open>instructionTable[0x00]\<close>
  (NOP) of the source, as executions.
\<close>

definition entry_EI :: "Z80CPU \<Rightarrow> step" where
  "entry_EI s = Done (op_EI s)"

definition entry_NOP :: "Z80CPU \<Rightarrow> step" where
  "entry_NOP s = Done (op_NOP s)"

section \<open>Tape player\<close>

text \<open>
  A parsed block of \<open>src/spectrum/tape.js\<close>. Standard (0x10) and turbo (0x11) blocks
  carry the same fields; the other constructors list their fields in the order given.
  The parsers build no other block; \<open>Unsupported\<close> stands for any other \<open>type\<close>.
\<close>

record timing_block =
  data :: "byte list"
  pilotPulse :: nat
  sync1Pulse :: nat
  sync2Pulse :: nat
  zeroPulse :: nat
  onePulse :: nat
  pilotPulses :: nat
  pause :: nat
  usedBits :: nat

datatype block =
    Standard timing_block
  | Turbo timing_block
  | PureTone nat nat \<comment> \<open>\<open>pulseLength\<close>, \<open>pulseCount\<close>\<close>
  | PulseSequence "nat list" \<comment> \<open>\<open>pulses\<close>\<close>
  | PureData "byte list" nat nat nat nat \<comment> \<open>\<open>data, zeroPulse, onePulse, usedBits, pause\<close>\<close>
  | DirectRecording "byte list" nat nat nat \<comment> \<open>\<open>data, tStatesPerSample, pause, usedBits\<close>\<close>
  | Pause nat \<comment> \<open>\<open>pause\<close>\<close>
  | Jump int \<comment> \<open>\<open>jumpOffset\<close>\<close>
  | LoopStart nat \<comment> \<open>\<open>repetitions\<close>\<close>
  | LoopEnd
  | StopTape48K
  | Unsupported nat

datatype tape_state =
  IDLE | PILOT | SYNC1 | SYNC2 | DATA | PURE_TONE | PULSE_SEQUENCE | DIRECT_RECORDING | PAUSE

text \<open>
  \<open>nextEdgeCycle\<close> is a JavaScript number that the code also sets to \<open>Infinity\<close> and,
  by adding \<open>undefined\<close>, to \<open>NaN\<close>.
\<close>

datatype jsnum = Num nat | Infinity | NaN

fun js_add :: "jsnum \<Rightarrow> nat \<Rightarrow> jsnum" where
  "js_add (Num a) b = Num (a + b)"
| "js_add Infinity b = Infinity"
| "js_add NaN b = NaN"

text \<open>\<open>cycles >= x\<close>.\<close>

fun js_ge :: "nat \<Rightarrow> jsnum \<Rightarrow> bool" where
  "js_ge c (Num a) = (c \<ge> a)"
| "js_ge c Infinity = False"
| "js_ge c NaN = False"

record Tape =
  blocks :: "block list"
  currentBlock :: "block option"
  blockIndex :: int
  playing :: bool
  paused :: bool
  bitPosition :: nat
  bytePosition :: nat
  currentBit :: nat
  lastEarBit :: nat
  nextEdgeCycle :: jsnum
  lastUpdateCycle :: nat
  state :: tape_state
  pulseCount :: nat
  edgeCount :: nat
  pauseCycles :: int
  pulseIndex :: nat
  loopStack :: "(int \<times> int) list"
  pulseSequence :: "nat list option"

definition CYCLES_PER_MS :: nat where "CYCLES_PER_MS = 3500"

text \<open>The tape after the constructor and \<open>loadTAP\<close>/\<open>loadTZX\<close> have stored the blocks.\<close>

definition Tape_loaded :: "block list \<Rightarrow> Tape" where
  "Tape_loaded bs =
     \<lparr>blocks = bs, currentBlock = None, blockIndex = 0, playing = False, paused = False,
      bitPosition = 0, bytePosition = 0, currentBit = 0, lastEarBit = 0,
      nextEdgeCycle = Num 0, lastUpdateCycle = 0, state = IDLE, pulseCount = 0,
      edgeCount = 0, pauseCycles = 0, pulseIndex = 0, loopStack = [], pulseSequence = None\<rparr>"

definition reset :: "Tape \<Rightarrow> Tape" where
  "reset t = t\<lparr>state := IDLE, currentBlock := None, lastEarBit := 0, nextEdgeCycle := Num 0,
               pulseCount := 0, edgeCount := 0, bitPosition := 0, bytePosition := 0,
               currentBit := 0, pauseCycles := 0, pulseIndex := 0\<rparr>"

definition stop :: "Tape \<Rightarrow> Tape" where
  "stop t = reset (t\<lparr>playing := False, paused := False, blockIndex := 0\<rparr>)"

text \<open>\<open>block.data\<close> where the block has the field.\<close>

fun block_data :: "block \<Rightarrow> byte list option" where
  "block_data (Standard b) = Some (data b)"
| "block_data (Turbo b) = Some (data b)"
| "block_data (PureData d z o' u p) = Some d"
| "block_data (DirectRecording d tps p u) = Some d"
| "block_data _ = None"

text \<open>\<open>block.pause\<close> where the block has the field.\<close>

fun block_pause :: "block \<Rightarrow> nat option" where
  "block_pause (Standard b) = Some (pause b)"
| "block_pause (Turbo b) = Some (pause b)"
| "block_pause (PureData d z o' u p) = Some p"
| "block_pause (DirectRecording d tps p u) = Some p"
| "block_pause (Pause p) = Some p"
| "block_pause _ = None"

text \<open>\<open>(byte >> k) & 1\<close>; a byte read past the end is \<open>undefined\<close> and shifts to 0.\<close>

definition bit_at :: "byte list \<Rightarrow> nat \<Rightarrow> nat \<Rightarrow> nat" where
  "bit_at d i k = (if i < length d then unat (drop_bit k (d ! i) AND 1) else 0)"

text \<open>
  \<open>nextBlock()\<close> and \<open>handleBlockEnd()\<close> call each other and \<open>nextBlock\<close> calls itself,
  without a bound (a \<open>Jump\<close> to itself never returns): the first argument is fuel, the
  second the value of \<open>this.cpu.cycles\<close>. The log line of \<open>nextBlock\<close> reads
  \<open>data[0].toString\<close>, which throws on empty data.
\<close>

fun nextBlock :: "nat \<Rightarrow> nat \<Rightarrow> Tape \<Rightarrow> error + Tape"
  and handleBlockEnd :: "nat \<Rightarrow> nat \<Rightarrow> Tape \<Rightarrow> error + Tape" where
  "nextBlock 0 cpu_cycles t = Inl OutOfFuel"
| "nextBlock (Suc n) cpu_cycles t =
     (if blockIndex t \<ge> int (length (blocks t)) then Inr (stop t)
      else if blockIndex t < 0 then Inl TypeError
      else
        let blk = blocks t ! nat (blockIndex t);
            t1 = t\<lparr>currentBlock := Some blk\<rparr>
        in if block_data blk = Some [] then Inl TypeError
           else
             let t2 = t1\<lparr>blockIndex := blockIndex t1 + 1\<rparr>;
                 t3 = t2\<lparr>bitPosition := 0, bytePosition := 0, pulseCount := 0,
                        edgeCount := 0, pulseIndex := 0\<rparr>
             in case blk of
                  Standard b \<Rightarrow>
                    Inr (t3\<lparr>state := PILOT, nextEdgeCycle := Num (cpu_cycles + pilotPulse b)\<rparr>)
                | Turbo b \<Rightarrow>
                    Inr (t3\<lparr>state := PILOT, nextEdgeCycle := Num (cpu_cycles + pilotPulse b)\<rparr>)
                | PureTone pulseLength pulseCount' \<Rightarrow>
                    Inr (t3\<lparr>state := PURE_TONE, edgeCount := 0,
                            nextEdgeCycle := Num (cpu_cycles + pulseLength)\<rparr>)
                | PulseSequence pulses \<Rightarrow>
                    Inr (t3\<lparr>state := PULSE_SEQUENCE, pulseIndex := 0,
                            pulseSequence := Some pulses,
                            nextEdgeCycle :=
                              (case pulses of [] \<Rightarrow> NaN | p0 # _ \<Rightarrow> Num (cpu_cycles + p0))\<rparr>)
                | PureData d zero one used p \<Rightarrow>
                    (let t4 = t3\<lparr>state := DATA, bitPosition := 0, bytePosition := 0,
                                 pulseCount := 0\<rparr>
                     in if d \<noteq> [] then
                          (let t5 = t4\<lparr>currentBit := bit_at d 0 7\<rparr>;
                               pulseLength = (if currentBit t5 \<noteq> 0 then one else zero)
                           in Inr (t5\<lparr>nextEdgeCycle := Num (cpu_cycles + pulseLength)\<rparr>))
                        else handleBlockEnd n cpu_cycles t4)
                | DirectRecording d tps p used \<Rightarrow>
                    Inr (t3\<lparr>state := DIRECT_RECORDING, bitPosition := 0, bytePosition := 0,
                            nextEdgeCycle := Num (cpu_cycles + tps)\<rparr>)
                | Pause p \<Rightarrow>
                    (let t4 = t3\<lparr>state := PAUSE, pauseCycles := int (p * CYCLES_PER_MS)\<rparr>
                     in if p = 0 then Inr (stop t4) else Inr t4)
                | LoopStart repetitions \<Rightarrow>
                    nextBlock n cpu_cycles
                      (t3\<lparr>loopStack := loopStack t3 @ [(blockIndex t3 - 1, int repetitions)]\<rparr>)
                | LoopEnd \<Rightarrow>
                    nextBlock n cpu_cycles
                      (if loopStack t3 \<noteq> [] then
                         (let (loopIndex, counter) = last (loopStack t3);
                              counter' = counter - 1;
                              t4 = t3\<lparr>loopStack := butlast (loopStack t3) @ [(loopIndex, counter')]\<rparr>
                          in if counter' > 0 then t4\<lparr>blockIndex := loopIndex + 1\<rparr>
                             else t4\<lparr>loopStack := butlast (loopStack t4)\<rparr>)
                       else t3)
                | Jump jumpOffset \<Rightarrow>
                    nextBlock n cpu_cycles (t3\<lparr>blockIndex := blockIndex t3 + jumpOffset\<rparr>)
                | StopTape48K \<Rightarrow> Inr (stop t3)
                | Unsupported ty \<Rightarrow> nextBlock n cpu_cycles t3)"
| "handleBlockEnd 0 cpu_cycles t = Inl OutOfFuel"
| "handleBlockEnd (Suc n) cpu_cycles t =
     (case currentBlock t of
        None \<Rightarrow> Inl TypeError
      | Some blk \<Rightarrow>
          (case block_pause blk of
             None \<Rightarrow> nextBlock n cpu_cycles t
           | Some p \<Rightarrow>
               if p > 0
               then Inr (t\<lparr>state := PAUSE, pauseCycles := int (p * CYCLES_PER_MS),
                           nextEdgeCycle := Infinity\<rparr>)
               else nextBlock n cpu_cycles t))"

text \<open>\<open>play()\<close>, called while the CPU counter stands at \<open>cpu_cycles\<close>.\<close>

definition play :: "nat \<Rightarrow> nat \<Rightarrow> Tape \<Rightarrow> error + Tape" where
  "play fuel cpu_cycles t =
     (if blocks t = [] then Inr t
      else
        let t1 = t\<lparr>playing := True, paused := False\<rparr>;
            t2 = t1\<lparr>lastUpdateCycle := cpu_cycles\<rparr>
        in if currentBlock t2 = None then nextBlock fuel cpu_cycles t2 else Inr t2)"

text \<open>
  \<open>processEdge(cycles, block)\<close> for a standard or turbo block. The first two arguments
  are the fuel and \<open>this.cpu.cycles\<close> for the calls of \<open>handleBlockEnd\<close>.
\<close>

definition processEdge :: "nat \<Rightarrow> nat \<Rightarrow> nat \<Rightarrow> timing_block \<Rightarrow> Tape \<Rightarrow> error + Tape" where
  "processEdge fuel cpu_cycles cycles b t =
     (case state t of
        PILOT \<Rightarrow>
          (let t1 = t\<lparr>nextEdgeCycle := js_add (nextEdgeCycle t) (pilotPulse b)\<rparr>;
               t2 = t1\<lparr>edgeCount := edgeCount t1 + 1\<rparr>
           in if edgeCount t2 \<ge> pilotPulses b * 2
              then Inr (t2\<lparr>state := SYNC1, nextEdgeCycle := Num (cycles + sync1Pulse b)\<rparr>)
              else Inr t2)
      | SYNC1 \<Rightarrow> Inr (t\<lparr>state := SYNC2, nextEdgeCycle := Num (cycles + sync2Pulse b)\<rparr>)
      | SYNC2 \<Rightarrow>
          (let t1 = t\<lparr>state := DATA, bytePosition := 0, bitPosition := 0, pulseCount := 0\<rparr>
           in if data b \<noteq> [] then
                (let t2 = t1\<lparr>currentBit := bit_at (data b) 0 7\<rparr>;
                     pulseLength = (if currentBit t2 \<noteq> 0 then onePulse b else zeroPulse b)
                 in Inr (t2\<lparr>nextEdgeCycle := Num (cycles + pulseLength)\<rparr>))
              else handleBlockEnd fuel cpu_cycles t1)
      | DATA \<Rightarrow>
          (let t1 = t\<lparr>pulseCount := pulseCount t + 1\<rparr>
           in if pulseCount t1 < 2 then
                (let pulseLength = (if currentBit t1 \<noteq> 0 then onePulse b else zeroPulse b)
                 in Inr (t1\<lparr>nextEdgeCycle := Num (cycles + pulseLength)\<rparr>))
              else
                (let t2 = t1\<lparr>pulseCount := 0\<rparr>;
                     t3 = t2\<lparr>bitPosition := bitPosition t2 + 1\<rparr>;
                     t4 = (if bitPosition t3 \<ge> 8
                           then (let t3' = t3\<lparr>bitPosition := 0\<rparr>
                                 in t3'\<lparr>bytePosition := bytePosition t3' + 1\<rparr>)
                           else t3)
                 in if bitPosition t3 \<ge> 8 \<and> bytePosition t4 \<ge> length (data b)
                    then handleBlockEnd fuel cpu_cycles t4
                    else
                      (let isLastByte = (bytePosition t4 + 1 = length (data b));
                           bitsInByte = (if isLastByte then usedBits b else 8)
                       in if bitPosition t4 < bitsInByte then
                            (let t5 = t4\<lparr>currentBit :=
                                          bit_at (data b) (bytePosition t4) (7 - bitPosition t4)\<rparr>;
                                 pulseLength =
                                   (if currentBit t5 \<noteq> 0 then onePulse b else zeroPulse b)
                             in Inr (t5\<lparr>nextEdgeCycle := Num (cycles + pulseLength)\<rparr>))
                          else handleBlockEnd fuel cpu_cycles t4)))
      | _ \<Rightarrow> Inr t)"

definition processPureTone :: "nat \<Rightarrow> nat \<Rightarrow> nat \<Rightarrow> nat \<Rightarrow> nat \<Rightarrow> Tape \<Rightarrow> error + Tape" where
  "processPureTone fuel cpu_cycles cycles pulseLength pulseCount' t =
     (let t1 = t\<lparr>edgeCount := edgeCount t + 1\<rparr>;
          t2 = t1\<lparr>nextEdgeCycle := js_add (nextEdgeCycle t1) pulseLength\<rparr>
      in if edgeCount t2 \<ge> pulseCount' * 2 then handleBlockEnd fuel cpu_cycles t2
         else Inr t2)"

text \<open>\<open>this.pulseSequence\<close> is \<open>null\<close> until a pulse-sequence block starts.\<close>

definition processPulseSequence :: "nat \<Rightarrow> nat \<Rightarrow> nat \<Rightarrow> Tape \<Rightarrow> error + Tape" where
  "processPulseSequence fuel cpu_cycles cycles t =
     (let t1 = t\<lparr>pulseIndex := pulseIndex t + 1\<rparr>
      in case pulseSequence t1 of
           None \<Rightarrow> Inl TypeError
         | Some ps \<Rightarrow>
             if pulseIndex t1 \<ge> length ps then handleBlockEnd fuel cpu_cycles t1
             else Inr (t1\<lparr>nextEdgeCycle := Num (cycles + ps ! pulseIndex t1)\<rparr>))"

definition processPureData ::
  "nat \<Rightarrow> nat \<Rightarrow> nat \<Rightarrow> byte list \<Rightarrow> nat \<Rightarrow> nat \<Rightarrow> nat \<Rightarrow> Tape \<Rightarrow> error + Tape" where
  "processPureData fuel cpu_cycles cycles d zero one used t =
     (let t1 = t\<lparr>pulseCount := pulseCount t + 1\<rparr>
      in if pulseCount t1 < 2 then
           (let pulseLength = (if currentBit t1 \<noteq> 0 then one else zero)
            in Inr (t1\<lparr>nextEdgeCycle := Num (cycles + pulseLength)\<rparr>))
         else
           (let t2 = t1\<lparr>pulseCount := 0\<rparr>;
                t3 = t2\<lparr>bitPosition := bitPosition t2 + 1\<rparr>;
                t4 = (if bitPosition t3 \<ge> 8
                      then (let t3' = t3\<lparr>bitPosition := 0\<rparr>
                            in t3'\<lparr>bytePosition := bytePosition t3' + 1\<rparr>)
                      else t3)
            in if bitPosition t3 \<ge> 8 \<and> bytePosition t4 \<ge> length d
               then handleBlockEnd fuel cpu_cycles t4
               else
                 (let isLastByte = (bytePosition t4 + 1 = length d);
                      bitsInByte = (if isLastByte then used else 8)
                  in if bitPosition t4 < bitsInByte then
                       (let t5 = t4\<lparr>currentBit := bit_at d (bytePosition t4) (7 - bitPosition t4)\<rparr>;
                            pulseLength = (if currentBit t5 \<noteq> 0 then one else zero)
                        in Inr (t5\<lparr>nextEdgeCycle := Num (cycles + pulseLength)\<rparr>))
                     else handleBlockEnd fuel cpu_cycles t4)))"

definition processDirectRecording ::
  "nat \<Rightarrow> nat \<Rightarrow> nat \<Rightarrow> byte list \<Rightarrow> nat \<Rightarrow> nat \<Rightarrow> Tape \<Rightarrow> error + Tape" where
  "processDirectRecording fuel cpu_cycles cycles d tps used t =
     (let byteIndex = bitPosition t div 8;
          bitInByte = 7 - (bitPosition t mod 8)
      in if byteIndex \<ge> length d then handleBlockEnd fuel cpu_cycles t
         else
           (let t1 = t\<lparr>lastEarBit := bit_at d byteIndex bitInByte\<rparr>;
                t2 = t1\<lparr>bitPosition := bitPosition t1 + 1\<rparr>;
                isLastByte = (byteIndex + 1 = length d);
                totalBits = (if isLastByte then (length d - 1) * 8 + used else length d * 8)
            in if bitPosition t2 \<ge> totalBits then handleBlockEnd fuel cpu_cycles t2
               else Inr (t2\<lparr>nextEdgeCycle := Num (cycles + tps)\<rparr>)))"

definition updatePauseState :: "nat \<Rightarrow> nat \<Rightarrow> nat \<Rightarrow> Tape \<Rightarrow> error + Tape" where
  "updatePauseState fuel cpu_cycles cycles t =
     (if pauseCycles t > 0 then
        (let elapsed = int cycles - int (lastUpdateCycle t);
             t1 = t\<lparr>pauseCycles := pauseCycles t - elapsed\<rparr>;
             t2 = t1\<lparr>lastEarBit := 0\<rparr>
         in if pauseCycles t2 \<le> 0
            then nextBlock fuel cpu_cycles (t2\<lparr>pauseCycles := 0, state := IDLE\<rparr>)
            else Inr t2)
      else nextBlock fuel cpu_cycles (t\<lparr>state := IDLE\<rparr>))"

text \<open>
  The \<open>while\<close> loop of \<open>updateDataBlock(cycles)\<close>, with \<open>block\<close> the block that was
  current when the method was entered. One unit of fuel per edge. The last branch is
  \<open>processEdge\<close>, which reads the fields of a standard or turbo block; \<open>update\<close>
  enters the loop with such a block only, and the model gives no meaning to it on another.
\<close>

fun updateDataBlock_loop :: "nat \<Rightarrow> nat \<Rightarrow> nat \<Rightarrow> block \<Rightarrow> Tape \<Rightarrow> error + Tape" where
  "updateDataBlock_loop 0 cpu_cycles cycles blk t =
     (if js_ge cycles (nextEdgeCycle t) \<and> state t \<noteq> PAUSE \<and> state t \<noteq> IDLE
      then Inl OutOfFuel else Inr t)"
| "updateDataBlock_loop (Suc n) cpu_cycles cycles blk t =
     (if js_ge cycles (nextEdgeCycle t) \<and> state t \<noteq> PAUSE \<and> state t \<noteq> IDLE then
        (let t1 = t\<lparr>lastEarBit := 1 - lastEarBit t\<rparr>
         in case (case blk of
                    PureTone pulseLength pulseCount' \<Rightarrow>
                      processPureTone n cpu_cycles cycles pulseLength pulseCount' t1
                  | PulseSequence pulses \<Rightarrow> processPulseSequence n cpu_cycles cycles t1
                  | PureData d zero one used p \<Rightarrow>
                      processPureData n cpu_cycles cycles d zero one used t1
                  | DirectRecording d tps p used \<Rightarrow>
                      processDirectRecording n cpu_cycles cycles d tps used t1
                  | Standard b \<Rightarrow> processEdge n cpu_cycles cycles b t1
                  | Turbo b \<Rightarrow> processEdge n cpu_cycles cycles b t1
                  | _ \<Rightarrow> Inl NotModelled) of
              Inl e \<Rightarrow> Inl e
            | Inr t2 \<Rightarrow> updateDataBlock_loop n cpu_cycles cycles blk t2)
      else Inr t)"

definition updateDataBlock :: "nat \<Rightarrow> nat \<Rightarrow> nat \<Rightarrow> Tape \<Rightarrow> error + Tape" where
  "updateDataBlock fuel cpu_cycles cycles t =
     (case currentBlock t of
        None \<Rightarrow> Inl TypeError
      | Some blk \<Rightarrow> updateDataBlock_loop fuel cpu_cycles cycles blk t)"

definition is_standard_or_turbo :: "block \<Rightarrow> bool" where
  "is_standard_or_turbo blk = (case blk of Standard b \<Rightarrow> True | Turbo b \<Rightarrow> True | _ \<Rightarrow> False)"

definition is_pause :: "block \<Rightarrow> bool" where
  "is_pause blk = (case blk of Pause p \<Rightarrow> True | _ \<Rightarrow> False)"

text \<open>
  \<open>update(cycles)\<close>; the returned EAR bit is \<open>lastEarBit\<close> of the result.
\<close>

definition update :: "nat \<Rightarrow> nat \<Rightarrow> nat \<Rightarrow> Tape \<Rightarrow> error + Tape" where
  "update fuel cpu_cycles cycles t =
     (case currentBlock t of
        None \<Rightarrow> Inr t
      | Some blk \<Rightarrow>
          if \<not> playing t \<or> paused t then Inr t
          else if state t = PAUSE then
            (case updatePauseState fuel cpu_cycles cycles t of
               Inl e \<Rightarrow> Inl e
             | Inr t1 \<Rightarrow> Inr (t1\<lparr>lastUpdateCycle := cycles\<rparr>))
          else
            (case (if is_standard_or_turbo blk then updateDataBlock fuel cpu_cycles cycles t
                   else if is_pause blk then updatePauseState fuel cpu_cycles cycles t
                   else Inr t) of
               Inl e \<Rightarrow> Inl e
             | Inr t1 \<Rightarrow> Inr (t1\<lparr>lastUpdateCycle := cycles\<rparr>)))"

text \<open>
  The frame driver calls \<open>tape.update(cpu.tstates)\<close> after each instruction: a run of
  updates at the counter values \<open>cs\<close>, stopping at the first exception.
\<close>

fun updates :: "nat \<Rightarrow> nat list \<Rightarrow> Tape \<Rightarrow> error + Tape" where
  "updates fuel [] t = Inr t"
| "updates fuel (c # cs) t =
     (case update fuel c c t of Inl e \<Rightarrow> Inl e | Inr t1 \<Rightarrow> updates fuel cs t1)"

section \<open>Frame driver\<close>

text \<open>
  The objects \<open>ZXSpectrum\<close> owns (\<open>src/spectrum/spectrum.js\<close>): the CPU with the memory
  connected to it, the ULA, which is also the CPU's \<open>io\<close>, and the tape. Sound and
  display are left out: they consume what the frame produces and give nothing back.
\<close>

record ZXSpectrum =
  zx_cpu :: Z80CPU
  zx_ula :: ULA
  zx_tape :: Tape

definition tstatesPerFrame :: nat where "tstatesPerFrame = 69888"

text \<open>
  The \<open>while\<close> loop of \<open>executeFrame\<close>, one unit of fuel per instruction: execute one
  instruction, update the tape at the new counter value, hand its bit to the ULA.
\<close>

fun executeFrame_loop ::
  "instruction_table \<Rightarrow> nat \<Rightarrow> nat \<Rightarrow> ZXSpectrum \<Rightarrow> error + ZXSpectrum" where
  "executeFrame_loop table 0 targetTStates z =
     (if tstates (zx_cpu z) < targetTStates then Inl OutOfFuel else Inr z)"
| "executeFrame_loop table (Suc n) targetTStates z =
     (if tstates (zx_cpu z) < targetTStates then
        (case executeInstruction table (zx_cpu z) (zx_ula z) of
           Inl e \<Rightarrow> Inl e
         | Inr (c1, u1) \<Rightarrow>
             (case update n (tstates c1) (tstates c1) (zx_tape z) of
                Inl e \<Rightarrow> Inl e
              | Inr tp \<Rightarrow>
                  executeFrame_loop table n targetTStates
                    (z\<lparr>zx_cpu := c1, zx_tape := tp,
                       zx_ula := setTapeInput u1 (lastEarBit tp)\<rparr>)))
      else Inr z)"

text \<open>
  \<open>executeFrame()\<close>: reset the border history, run the loop, then
  \<open>this.cpu.interrupt()\<close>.
\<close>

definition executeFrame :: "instruction_table \<Rightarrow> nat \<Rightarrow> ZXSpectrum \<Rightarrow> error + ZXSpectrum" where
  "executeFrame table fuel z =
     (let targetTStates = tstates (zx_cpu z) + tstatesPerFrame;
          z0 = z\<lparr>zx_ula := resetFrameTStates (zx_ula z) (tstates (zx_cpu z))\<rparr>
      in case executeFrame_loop table fuel targetTStates z0 of
           Inl e \<Rightarrow> Inl e
         | Inr z1 \<Rightarrow> Inr (z1\<lparr>zx_cpu := interrupt (zx_cpu z1)\<rparr>))"

section \<open>Invariants and example states\<close>



text \<open>A CPU with zero-filled memory, \<open>BC = 0x1234\<close>, and the stack in ROM or in RAM.\<close>

definition rom_stack_example :: Z80CPU where
  "rom_stack_example =
     Z80CPU_new\<lparr>reg_b := 0x12, reg_c := 0x34, sp := 0x1000, memory := Some Memory_new\<rparr>"

definition ram_stack_example :: Z80CPU where
  "ram_stack_example =
     Z80CPU_new\<lparr>reg_b := 0x12, reg_c := 0x34, sp := 0x8000, memory := Some Memory_new\<rparr>"

text \<open>
  A halted CPU with interrupts enabled, in interrupt mode 1 and in mode 2; in mode 2 the
  vector at 0x40FF holds the word 0x5678.
\<close>

definition im1_example :: Z80CPU where
  "im1_example =
     ram_stack_example\<lparr>pc := 0x1234, iff1 := True, iff2 := True, im := 1, halted := True\<rparr>"



text \<open>The bounds of the scanline counter.\<close>

definition ula_inv :: "ULA \<Rightarrow> bool" where
  "ula_inv u \<longleftrightarrow> currentScanline u < 312 \<and> scanlineTStates u < 224"

text \<open>A sequence of \<open>addCycles\<close> calls.\<close>

definition ticks :: "ULA \<Rightarrow> nat list \<Rightarrow> ULA" where
  "ticks u cs = foldl addCycles u cs"

text \<open>
  A machine at the start of a frame whose ULA has just counted a whole frame, with a
  halted CPU that has interrupts enabled and no tape loaded.
\<close>

definition frame_example :: ZXSpectrum where
  "frame_example =
     \<lparr>zx_cpu = im1_example, zx_ula = addCycles ULA_new 69888, zx_tape = Tape_loaded []\<rparr>"

text \<open>
  A memory with the byte 0xAA at 0x8000, and a CPU about to copy two bytes from 0x8000
  to 0x9000, or one byte from 0x8000 to the ROM address 0x1000.
\<close>

definition copy_memory :: Memory where
  "copy_memory = Memory_new\<lparr>ram := (ram Memory_new)[0x4000 := 0xaa]\<rparr>"

definition ldir_example :: Z80CPU where
  "ldir_example =
     ram_stack_example\<lparr>reg_b := 0, reg_c := 2, reg_d := 0x90, reg_e := 0, reg_h := 0x80,
                        reg_l := 0, pc := 0x4002, memory := Some copy_memory\<rparr>"

definition ldi_rom_example :: Z80CPU where
  "ldi_rom_example =
     ram_stack_example\<lparr>reg_b := 0, reg_c := 1, reg_d := 0x10, reg_e := 0, reg_h := 0x80,
                        reg_l := 0, pc := 0x4002, memory := Some copy_memory\<rparr>"

text \<open>A CPU with interrupts disabled, about to execute \<open>EI; RETI\<close> at 0x4000.\<close>

definition ei_example :: Z80CPU where
  "ei_example =
     Z80CPU_new\<lparr>sp := 0x8000, pc := 0x4000, im := 1,
                 memory := Some (Memory_new\<lparr>ram := (ram Memory_new)[0 := 0xfb, 1 := 0xed, 2 := 0x4d]\<rparr>)\<rparr>"

text \<open>
  A CPU whose memory refers to a ULA at the start of scanline 64, the first line of the
  display, with \<open>HL = 0x4000\<close>, \<open>DE = 0x4100\<close> and \<open>BC = 1\<close>.
\<close>

definition contended_example :: Z80CPU where
  "contended_example =
     Z80CPU_new\<lparr>reg_c := 1, reg_d := 0x41, reg_h := 0x40, sp := 0x8000,
                 memory := Some (setULA Memory_new (addCycles ULA_new (64 * 224)))\<rparr>"

text \<open>
  A table for the examples, holding the source's entries for NOP and EI; the examples
  execute no other opcode.
\<close>

definition nop_ei_entries :: instruction_table where
  "nop_ei_entries opcode =
     (if opcode = 0x00 then Some entry_NOP
      else if opcode = 0xfb then Some entry_EI
      else None)"

text \<open>Tapes holding one pure-tone block and one pulse-sequence block.\<close>

definition pure_tone_tape :: Tape where
  "pure_tone_tape = Tape_loaded [PureTone 2168 4]"

definition pulse_sequence_tape :: Tape where
  "pulse_sequence_tape = Tape_loaded [PulseSequence [100, 200]]"

section \<open>Memory: ROM is write-protected\<close>

lemma mem_write_rom [simp]: "rom (mem_write m addr v) = rom m"
  by (simp add: mem_write_def Let_def)

lemma writeWithContention_rom [simp]: "rom (snd (writeWithContention m addr v)) = rom m"
  by (simp add: writeWithContention_def Let_def)

lemma do_write_rom [simp]: "rom (do_write m w) = rom m"
  by (cases w) simp_all

lemma do_writes_rom: "rom (do_writes m ws) = rom m"
  unfolding do_writes_def by (induction ws arbitrary: m) simp_all

lemma mem_read_below_4000: "addr < 0x4000 \<Longrightarrow> mem_read m addr = rom m ! addr"
  by (simp add: mem_read_def Let_def)

text \<open>
  C7. A write to an address below 0x4000 is a no-op, by \<open>write\<close> and by
  \<open>writeWithContention\<close>; after any sequence of writes, to any addresses, the ROM array
  is unchanged and a read below 0x4000 returns the byte it returned before.
\<close>

theorem rom_write_noop:
  "(addr < 0x4000 \<longrightarrow> mem_write m addr v = m \<and> snd (writeWithContention m addr v) = m)
   \<and> rom (do_writes m ws) = rom m
   \<and> (a < 0x4000 \<longrightarrow> mem_read (do_writes m ws) a = mem_read m a)"
  by (simp add: mem_write_def writeWithContention_def Let_def do_writes_rom mem_read_below_4000)

theorem rom_write_noop_witness:
  "(0x1000 :: nat) < 0x4000 \<and> mem_write Memory_new 0x1000 0xff = Memory_new \<and>
   snd (writeWithContention Memory_new 0x1000 0xff) = Memory_new \<and>
   rom (do_writes Memory_new [Write 0x1000 1, WriteWithContention 0x5000 2]) = rom Memory_new \<and>
   mem_read (do_writes Memory_new [Write 0x1000 1, WriteWithContention 0x5000 2]) 0x1000
     = mem_read Memory_new 0x1000"
  using rom_write_noop [of "0x1000" Memory_new "0xff"
      "[Write 0x1000 1, WriteWithContention 0x5000 2]" "0x1000"]
  by simp

section \<open>Interrupt acceptance\<close>

text \<open>
  C10. With IFF1 clear, or with the enable of an EI still pending, \<open>interrupt()\<close>
  returns the CPU as it was: registers, flags, \<open>halted\<close>, the T-state counter and the
  memory are all part of the state that is unchanged.
\<close>

theorem interrupt_disabled_noop:
  "\<not> iff1 s \<or> enableInterruptsPending s \<Longrightarrow> interrupt s = s"
  by (auto simp: interrupt_def)

theorem interrupt_disabled_noop_witness:
  "\<not> iff1 rom_stack_example \<and> interrupt rom_stack_example = rom_stack_example"
  using interrupt_disabled_noop [of rom_stack_example]
  by (simp add: rom_stack_example_def Z80CPU_new_def)

section \<open>Stack round trip\<close>

lemma ff_mask16: "(0xff :: word16) = mask 8"
  by (simp add: mask_eq_exp_minus_1)

lemma hi8_pair16 [simp]: "hi8 (pair16 h l) = h"
  unfolding hi8_def pair16_def ff_mask16
  by (rule bit_word_eqI) (auto simp: bit_simps dest: bit_imp_le_length)

lemma lo8_pair16 [simp]: "lo8 (pair16 h l) = l"
  unfolding lo8_def pair16_def ff_mask16
  by (rule bit_word_eqI) (auto simp: bit_simps dest: bit_imp_le_length)

lemma pair16_hi8_lo8 [simp]: "pair16 (hi8 v) (lo8 v) = v"
  unfolding lo8_def hi8_def pair16_def ff_mask16
  by (rule bit_word_eqI) (auto simp: bit_simps dest: bit_imp_le_length)

lemma unat16_mod [simp]: "unat (a :: word16) mod 65536 = unat a"
  using unsigned_less [of a, where 'a = nat] by simp

lemma unat16_less: "unat (a :: word16) < 65536"
  using unsigned_less [of a, where 'a = nat] by simp

lemma readMem_writeMem_same:
  assumes "memory s = Some m" "length (ram m) = 49152" "0x4000 \<le> a"
  shows "readMem (writeMem s a v) a = v"
proof -
  from assms(3) have ge: "0x4000 \<le> unat a" by (simp add: word_le_nat_alt)
  have "unat a - 0x4000 < length (ram m)" using unat16_less [of a] assms(2) by simp
  with ge assms(1) show ?thesis
    by (simp add: readMem_def writeMem_def mem_read_def mem_write_def Let_def)
qed

lemma readMem_writeMem_other:
  assumes "a \<noteq> b"
  shows "readMem (writeMem s a v) b = readMem s b"
proof (cases "memory s")
  case None
  then show ?thesis by (simp add: readMem_def writeMem_def)
next
  case (Some m)
  from assms have "unat a \<noteq> unat b" by (simp add: word_unat_eq_iff)
  with Some show ?thesis
    by (auto simp: readMem_def writeMem_def mem_read_def mem_write_def Let_def)
qed

lemma sp_writeMem [simp]: "sp (writeMem s a v) = sp s"
  by (simp add: writeMem_def split: option.splits)

lemma memory_writeMem_Some:
  "memory s = Some m \<Longrightarrow>
   \<exists>m'. memory (writeMem s a v) = Some m' \<and> length (ram m') = length (ram m)"
  by (simp add: writeMem_def mem_write_def Let_def)

lemma readMem_sp_update [simp]: "readMem (s\<lparr>sp := x\<rparr>) a = readMem s a"
  by (simp add: readMem_def)

lemma pop_push:
  assumes "memory s = Some m" "length (ram m) = 49152"
    and "0x4000 \<le> sp s - 1" "0x4000 \<le> sp s - 2"
  shows "fst (pop (push s v)) = v"
proof -
  define s1 where "s1 = s\<lparr>sp := sp s - 1\<rparr>"
  define s2 where "s2 = writeMem s1 (sp s - 1) (hi8 v)"
  define s3 where "s3 = s2\<lparr>sp := sp s - 2\<rparr>"
  define s4 where "s4 = writeMem s3 (sp s - 2) (lo8 v)"
  have p: "push s v = s4"
    by (simp add: push_def Let_def s1_def s2_def s3_def s4_def)
  have m1: "memory s1 = Some m" using assms(1) by (simp add: s1_def)
  obtain m2 where m2: "memory s2 = Some m2" "length (ram m2) = 49152"
    using memory_writeMem_Some [OF m1, of "sp s - 1" "hi8 v"] assms(2) by (auto simp: s2_def)
  have m3: "memory s3 = Some m2" using m2 by (simp add: s3_def)
  have sp4: "sp s4 = sp s - 2" by (simp add: s4_def s3_def)
  have lo: "readMem s4 (sp s - 2) = lo8 v"
    unfolding s4_def using readMem_writeMem_same [OF m3 m2(2) assms(4)] .
  have ne: "sp s - 2 \<noteq> sp s - 1" by simp
  have "readMem s4 (sp s - 1) = readMem s3 (sp s - 1)"
    unfolding s4_def by (rule readMem_writeMem_other [OF ne])
  also have "\<dots> = readMem s2 (sp s - 1)" by (simp add: s3_def)
  also have "\<dots> = hi8 v"
    unfolding s2_def using readMem_writeMem_same [OF m1 assms(2) assms(3)] .
  finally have hi: "readMem s4 (sp s - 1) = hi8 v" .
  have "sp s - 2 + 1 = sp s - 1" by simp
  then show ?thesis
    using lo hi sp4 by (simp add: p pop_def Let_def)
qed

text \<open>
  C9, as stated, fails where the stack lies in ROM: the pushed bytes are dropped and
  \<open>POP BC\<close> reads the ROM bytes instead.
\<close>

theorem push_pop_rom_counterexample:
  "getBC (op_POP 0 (op_PUSH 0 rom_stack_example)) \<noteq> getBC rom_stack_example"
  by (simp add: rom_stack_example_def Z80CPU_new_def Memory_new_def op_POP_def op_PUSH_def
      pop_def push_def writeMem_def readMem_def mem_write_def mem_read_def Let_def getBC_def
      setBC_def pair16_def hi8_def lo8_def)

text \<open>
  C9, amended. \<open>PUSH rp; POP rp\<close> always leaves SP at its original value (modulo
  \<open>2^16\<close>). It leaves \<open>rp\<close> unchanged when the memory is connected and the two
  stack bytes, at \<open>SP - 1\<close> and \<open>SP - 2\<close> modulo \<open>2^16\<close>, lie in RAM (0x4000 and above).
\<close>

theorem push_pop_roundtrip:
  "sp (op_POP rp (op_PUSH rp s)) = sp s \<and>
   (memory s = Some m \<and> length (ram m) = 49152 \<and> 0x4000 \<le> sp s - 1 \<and> 0x4000 \<le> sp s - 2
    \<longrightarrow>
      (rp = 0 \<longrightarrow> getBC (op_POP rp (op_PUSH rp s)) = getBC s) \<and>
      (rp = 1 \<longrightarrow> getDE (op_POP rp (op_PUSH rp s)) = getDE s) \<and>
      (rp = 2 \<longrightarrow> getHL (op_POP rp (op_PUSH rp s)) = getHL s) \<and>
      (rp = 3 \<longrightarrow> getAF (op_POP rp (op_PUSH rp s)) = getAF s))"
proof -
  have spr: "sp (op_POP rp (op_PUSH rp s)) = sp s"
    by (simp add: op_POP_def op_PUSH_def Let_def split_def pop_def push_def
        setAF_def setBC_def setDE_def setHL_def)
  have rt: "fst (pop ((push s v)\<lparr>tstates := t\<rparr>)) = v"
    if "memory s = Some m" "length (ram m) = 49152" "0x4000 \<le> sp s - 1" "0x4000 \<le> sp s - 2"
    for v t
  proof -
    have "fst (pop ((push s v)\<lparr>tstates := t\<rparr>)) = fst (pop (push s v))"
      by (simp add: pop_def Let_def readMem_def split: option.splits)
    then show ?thesis using pop_push [OF that] by simp
  qed
  show ?thesis
    using spr rt
    by (auto simp: op_POP_def op_PUSH_def Let_def split_def
        setAF_def setBC_def setDE_def setHL_def getAF_def getBC_def getDE_def getHL_def)
qed

theorem push_pop_roundtrip_witness:
  "memory ram_stack_example = Some Memory_new \<and> length (ram Memory_new) = 49152 \<and>
   0x4000 \<le> sp ram_stack_example - 1 \<and> 0x4000 \<le> sp ram_stack_example - 2 \<and>
   sp (op_POP 0 (op_PUSH 0 ram_stack_example)) = sp ram_stack_example \<and>
   getBC (op_POP 0 (op_PUSH 0 ram_stack_example)) = getBC ram_stack_example"
  using push_pop_roundtrip [of 0 ram_stack_example Memory_new]
  by (simp add: ram_stack_example_def Z80CPU_new_def Memory_new_def)

section \<open>Interrupt acceptance: the return address and the vector\<close>

lemma readMem_memory: "memory s = memory s' \<Longrightarrow> readMem s a = readMem s' a"
  by (simp add: readMem_def)









section \<open>Tape: from the pilot tone to the first sync pulse\<close>










section \<open>ULA: scanline counter and interrupt request\<close>

declare addCycles_loop.simps [simp del]

lemma addCycles_loop_stop: "scanlineTStates u < 224 \<Longrightarrow> addCycles_loop u = u"
  by (subst addCycles_loop.simps) (simp add: TSTATES_PER_SCANLINE_def)

lemma addCycles_loop_step:
  "224 \<le> scanlineTStates u \<Longrightarrow>
   addCycles_loop u =
     addCycles_loop
      (if 312 \<le> currentScanline u + 1
       then u\<lparr>scanlineTStates := scanlineTStates u - 224, currentScanline := 0,
              interruptRequested := True\<rparr>
       else u\<lparr>scanlineTStates := scanlineTStates u - 224,
              currentScanline := currentScanline u + 1\<rparr>)"
  by (subst addCycles_loop.simps)
     (simp add: TSTATES_PER_SCANLINE_def TOTAL_SCANLINES_def Let_def)


lemma addCycles_loop_closed:
  "currentScanline u < 312 \<Longrightarrow>
   scanlineTStates (addCycles_loop u) = scanlineTStates u mod 224 \<and>
   currentScanline (addCycles_loop u) = (currentScanline u + scanlineTStates u div 224) mod 312 \<and>
   interruptRequested (addCycles_loop u) =
     (interruptRequested u \<or> 312 \<le> currentScanline u + scanlineTStates u div 224) \<and>
   earBit (addCycles_loop u) = earBit u"
proof (induction "scanlineTStates u" arbitrary: u rule: less_induct)
  case less
  show ?case
  proof (cases "scanlineTStates u < 224")
    case True
    with less.prems show ?thesis by (simp add: addCycles_loop_stop)
  next
    case False
    then have ge: "224 \<le> scanlineTStates u" by simp
    define x where "x = scanlineTStates u - 224"
    have ts: "scanlineTStates u = x + 224" using ge by (simp add: x_def)
    have d: "scanlineTStates u div 224 = x div 224 + 1" by (simp add: ts)
    have m: "scanlineTStates u mod 224 = x mod 224" by (simp add: ts)
    show ?thesis
    proof (cases "312 \<le> currentScanline u + 1")
      case True
      with less.prems have sl: "currentScanline u = 311" by simp
      define u3 where "u3 = u\<lparr>scanlineTStates := x, currentScanline := 0,
              interruptRequested := True\<rparr>"
      have unf: "addCycles_loop u = addCycles_loop u3"
        using addCycles_loop_step [OF ge] True by (simp add: u3_def x_def)
      have "scanlineTStates u3 < scanlineTStates u" by (simp add: u3_def ts)
      moreover have "currentScanline u3 < 312" by (simp add: u3_def)
      ultimately have IH: "scanlineTStates (addCycles_loop u3) = scanlineTStates u3 mod 224 \<and>
         currentScanline (addCycles_loop u3) =
           (currentScanline u3 + scanlineTStates u3 div 224) mod 312 \<and>
         interruptRequested (addCycles_loop u3) =
           (interruptRequested u3 \<or> 312 \<le> currentScanline u3 + scanlineTStates u3 div 224) \<and>
         earBit (addCycles_loop u3) = earBit u3"
        by (rule less.hyps)
      have a: "(311 + (x div 224 + 1)) mod 312 = (x div 224) mod 312"
        by simp
      show ?thesis
        unfolding unf d m sl using IH a by (simp add: u3_def)
    next
      case False
      define u3 where "u3 = u\<lparr>scanlineTStates := x,
              currentScanline := currentScanline u + 1\<rparr>"
      have unf: "addCycles_loop u = addCycles_loop u3"
        using addCycles_loop_step [OF ge] False by (simp add: u3_def x_def)
      have "scanlineTStates u3 < scanlineTStates u" by (simp add: u3_def ts)
      moreover have "currentScanline u3 < 312" using False by (simp add: u3_def)
      ultimately have IH: "scanlineTStates (addCycles_loop u3) = scanlineTStates u3 mod 224 \<and>
         currentScanline (addCycles_loop u3) =
           (currentScanline u3 + scanlineTStates u3 div 224) mod 312 \<and>
         interruptRequested (addCycles_loop u3) =
           (interruptRequested u3 \<or> 312 \<le> currentScanline u3 + scanlineTStates u3 div 224) \<and>
         earBit (addCycles_loop u3) = earBit u3"
        by (rule less.hyps)
      show ?thesis
        unfolding unf d m using IH by (simp add: u3_def add.assoc)
    qed
  qed
qed


lemma addCycles_inv: "currentScanline u < 312 \<Longrightarrow> ula_inv (addCycles u c)"
  using addCycles_loop_closed [of "u\<lparr>scanlineTStates := scanlineTStates u + c\<rparr>"]
  by (simp add: addCycles_def ula_inv_def)

lemma ticks_inv: "ula_inv u \<Longrightarrow> ula_inv (ticks u cs)"
proof (induction cs arbitrary: u)
  case Nil
  then show ?case by (simp add: ticks_def)
next
  case (Cons c cs)
  have "ula_inv (addCycles u c)"
    using addCycles_inv [of u c] Cons.prems by (simp add: ula_inv_def)
  from Cons.IH [OF this] show ?case by (simp add: ticks_def)
qed

lemma ULA_new_inv: "ula_inv ULA_new"
  by (simp add: ula_inv_def ULA_new_def)

lemma addCycles_flag:
  assumes "currentScanline u < 312"
  shows "interruptRequested (addCycles u c) =
           (interruptRequested u \<or>
            312 * 224 \<le> currentScanline u * 224 + scanlineTStates u + c)"
proof -
  have "(currentScanline u * 224 + scanlineTStates u + c) div 224
        = currentScanline u + (scanlineTStates u + c) div 224"
    by (simp add: add.assoc)
  moreover have "(312 \<le> (currentScanline u * 224 + scanlineTStates u + c) div 224)
        = (312 * 224 \<le> currentScanline u * 224 + scanlineTStates u + c)"
    by (simp add: less_eq_div_iff_mult_less_eq)
  ultimately show ?thesis
    using addCycles_loop_closed [of "u\<lparr>scanlineTStates := scanlineTStates u + c\<rparr>"] assms
    by (simp add: addCycles_def)
qed

lemma addCycles_position:
  assumes "currentScanline u < 312"
  shows "scanlineTStates (addCycles u c) =
           (currentScanline u * 224 + scanlineTStates u + c) mod 224 \<and>
         currentScanline (addCycles u c) =
           ((currentScanline u * 224 + scanlineTStates u + c) div 224) mod 312"
proof -
  have "(currentScanline u * 224 + scanlineTStates u + c) div 224
        = currentScanline u + (scanlineTStates u + c) div 224"
    by (simp add: add.assoc)
  moreover have "(currentScanline u * 224 + scanlineTStates u + c) mod 224
        = (scanlineTStates u + c) mod 224"
    by (simp add: add.assoc)
  ultimately show ?thesis
    using addCycles_loop_closed [of "u\<lparr>scanlineTStates := scanlineTStates u + c\<rparr>"] assms
    by (simp add: addCycles_def)
qed

lemma ULA_read_counters:
  "currentScanline (snd (ULA_read u p)) = currentScanline u \<and>
   scanlineTStates (snd (ULA_read u p)) = scanlineTStates u \<and>
   interruptRequested (snd (ULA_read u p)) = interruptRequested u"
  by (simp add: ULA_read_def Let_def)

lemma ULA_write_counters:
  "currentScanline (ULA_write u t p v) = currentScanline u \<and>
   scanlineTStates (ULA_write u t p v) = scanlineTStates u \<and>
   interruptRequested (ULA_write u t p v) = interruptRequested u"
  by (simp add: ULA_write_def Let_def)

lemma run_io_counters:
  "run_io st u = Inr (c, u') \<Longrightarrow>
   currentScanline u' = currentScanline u \<and>
   scanlineTStates u' = scanlineTStates u \<and>
   interruptRequested u' = interruptRequested u"
proof (induction st arbitrary: u)
  case (Done x)
  then show ?case by simp
next
  case (Fail e)
  then show ?case by simp
next
  case (PortIn port k)
  obtain v u1 where r: "ULA_read u (port mod 65536) = (v, u1)"
    by (cases "ULA_read u (port mod 65536)")
  with PortIn.prems have "run_io (k v) u1 = Inr (c, u')" by simp
  from PortIn.IH [OF _ this] have
    "currentScanline u' = currentScanline u1 \<and> scanlineTStates u' = scanlineTStates u1 \<and>
     interruptRequested u' = interruptRequested u1" by blast
  moreover have "u1 = snd (ULA_read u (port mod 65536))" using r by simp
  ultimately show ?case using ULA_read_counters [of u "port mod 65536"] by simp
next
  case (PortOut t port val k)
  from PortOut.prems have
    "run_io k (ULA_write u t (port mod 65536) (val mod 256)) = Inr (c, u')" by simp
  from PortOut.IH [OF this] show ?case
    using ULA_write_counters [of u t "port mod 65536" "val mod 256"] by simp
qed

lemma executeInstruction_counters:
  assumes "executeInstruction table s u = Inr (c, u')"
  shows "currentScanline u' = currentScanline u \<and>
         scanlineTStates u' = scanlineTStates u \<and>
         interruptRequested u' = interruptRequested u"
proof (cases "halted s")
  case True
  with assms show ?thesis by (simp add: executeInstruction_def)
next
  case False
  obtain opcode s1 where f: "fetchByte s = (opcode, s1)" by (cases "fetchByte s")
  from assms False f obtain s2 u2 where
    e: "executeOpcode opcode table s1 u = Inr (s2, u2)" and u': "u' = u2"
    by (auto simp: executeInstruction_def Let_def split: sum.splits if_splits)
  from e obtain execute where "run_io (execute s1) u = Inr (s2, u2)"
    by (auto simp: executeOpcode_def split: option.splits)
  from run_io_counters [OF this] u' show ?thesis by simp
qed

lemma executeFrame_loop_ula:
  "executeFrame_loop table n tgt z = Inr z' \<Longrightarrow>
   currentScanline (zx_ula z') = currentScanline (zx_ula z) \<and>
   scanlineTStates (zx_ula z') = scanlineTStates (zx_ula z) \<and>
   interruptRequested (zx_ula z') = interruptRequested (zx_ula z)"
proof (induction n arbitrary: z)
  case 0
  then show ?case by (simp split: if_splits)
next
  case (Suc n)
  show ?case
  proof (cases "tstates (zx_cpu z) < tgt")
    case False
    with Suc.prems show ?thesis by simp
  next
    case True
    with Suc.prems obtain c1 u1 tp where
      e: "executeInstruction table (zx_cpu z) (zx_ula z) = Inr (c1, u1)" and
      l: "executeFrame_loop table n tgt
         (z\<lparr>zx_cpu := c1, zx_tape := tp, zx_ula := setTapeInput u1 (lastEarBit tp)\<rparr>)
       = Inr z'"
      by (auto split: sum.splits)
    from Suc.IH [OF l] executeInstruction_counters [OF e] show ?thesis
      by (simp add: setTapeInput_def)
  qed
qed

lemma executeFrame_ula:
  assumes "executeFrame table fuel z = Inr z'"
  shows "currentScanline (zx_ula z') = currentScanline (zx_ula z) \<and>
         scanlineTStates (zx_ula z') = scanlineTStates (zx_ula z) \<and>
         interruptRequested (zx_ula z') = interruptRequested (zx_ula z)"
proof -
  let ?z0 = "z\<lparr>zx_ula := resetFrameTStates (zx_ula z) (tstates (zx_cpu z))\<rparr>"
  from assms obtain z1 where
    l: "executeFrame_loop table fuel (tstates (zx_cpu z) + tstatesPerFrame) ?z0 = Inr z1"
    and z': "z' = z1\<lparr>zx_cpu := interrupt (zx_cpu z1)\<rparr>"
    by (auto simp: executeFrame_def Let_def split: sum.splits)
  from executeFrame_loop_ula [OF l] show ?thesis by (simp add: z' resetFrameTStates_def)
qed

lemma halted_loop:
  assumes "halted (zx_cpu z)" "currentBlock (zx_tape z) = None"
    and "tgt \<le> tstates (zx_cpu z) + 4 * n"
  shows "\<exists>z'. executeFrame_loop table n tgt z = Inr z' \<and>
              zx_cpu z' = (zx_cpu z)\<lparr>tstates := tstates (zx_cpu z')\<rparr>"
  using assms
proof (induction n arbitrary: z)
  case 0
  then have "executeFrame_loop table 0 tgt z = Inr z" by simp
  then show ?case by simp
next
  case (Suc n)
  show ?case
  proof (cases "tstates (zx_cpu z) < tgt")
    case False
    then have "executeFrame_loop table (Suc n) tgt z = Inr z" by simp
    then show ?thesis by simp
  next
    case True
    let ?c1 = "(zx_cpu z)\<lparr>tstates := tstates (zx_cpu z) + 4\<rparr>"
    let ?z1 = "z\<lparr>zx_cpu := ?c1, zx_tape := zx_tape z,
                 zx_ula := setTapeInput (zx_ula z) (lastEarBit (zx_tape z))\<rparr>"
    have e: "executeInstruction table (zx_cpu z) (zx_ula z) = Inr (?c1, zx_ula z)"
      using Suc.prems(1) by (simp add: executeInstruction_def)
    have u: "update n (tstates ?c1) (tstates ?c1) (zx_tape z) = Inr (zx_tape z)"
      using Suc.prems(2) by (simp add: update_def)
    have step: "executeFrame_loop table (Suc n) tgt z = executeFrame_loop table n tgt ?z1"
      using True e u by simp
    have "halted (zx_cpu ?z1)" "currentBlock (zx_tape ?z1) = None"
      "tgt \<le> tstates (zx_cpu ?z1) + 4 * n"
      using Suc.prems by simp_all
    from Suc.IH [OF this] obtain z' where
      r: "executeFrame_loop table n tgt ?z1 = Inr z'"
      and c: "zx_cpu z' = (zx_cpu ?z1)\<lparr>tstates := tstates (zx_cpu z')\<rparr>"
      by blast
    from c have "zx_cpu z' = (zx_cpu z)\<lparr>tstates := tstates (zx_cpu z')\<rparr>" by simp
    with r show ?thesis unfolding step by blast
  qed
qed

lemma frame_example_flag: "interruptRequested (zx_ula frame_example)"
  using addCycles_flag [of ULA_new 69888]
  by (simp add: frame_example_def ULA_new_def)

lemma frame_example_run:
  "\<exists>z1 T. executeFrame table 20000 frame_example
            = Inr (z1\<lparr>zx_cpu := interrupt (im1_example\<lparr>tstates := T\<rparr>)\<rparr>) \<and>
          interruptRequested (zx_ula z1)"
proof -
  let ?z0 = "frame_example\<lparr>zx_ula := resetFrameTStates (zx_ula frame_example)
                                        (tstates (zx_cpu frame_example))\<rparr>"
  have h: "halted (zx_cpu ?z0)" "currentBlock (zx_tape ?z0) = None"
    "tstates (zx_cpu frame_example) + tstatesPerFrame \<le> tstates (zx_cpu ?z0) + 4 * 20000"
    by (simp_all add: frame_example_def im1_example_def Tape_loaded_def tstatesPerFrame_def)
  from halted_loop [OF h] obtain z1 where
    r: "executeFrame_loop table 20000 (tstates (zx_cpu frame_example) + tstatesPerFrame) ?z0
          = Inr z1"
    and c: "zx_cpu z1 = (zx_cpu ?z0)\<lparr>tstates := tstates (zx_cpu z1)\<rparr>" by blast
  have c': "zx_cpu z1 = im1_example\<lparr>tstates := tstates (zx_cpu z1)\<rparr>"
    using c unfolding frame_example_def by simp
  have f: "interruptRequested (zx_ula z1)"
    using executeFrame_loop_ula [OF r] frame_example_flag
    by (simp add: resetFrameTStates_def)
  have "executeFrame table 20000 frame_example
          = Inr (z1\<lparr>zx_cpu := interrupt (zx_cpu z1)\<rparr>)"
    using r by (simp add: executeFrame_def Let_def)
  with c' f show ?thesis by metis
qed

lemma interrupt_im1_example:
  "pc (interrupt (im1_example\<lparr>tstates := T\<rparr>)) = 0x0038 \<and>
   \<not> iff1 (interrupt (im1_example\<lparr>tstates := T\<rparr>))"
  by (simp add: interrupt_def Let_def im1_example_def ram_stack_example_def Z80CPU_new_def
      push_def writeMem_def)

text \<open>
  C6, as stated, fails in its last part: the ULA has counted a whole frame, so the
  request is set at the wrap; the frame runs, the CPU accepts the interrupt at the frame
  boundary (PC is 0x0038, IFF1 is clear), and the request is still set. The CPU is
  halted throughout, so no table entry is executed.
\<close>

theorem frame_interrupt_keeps_request_counterexample:
  "\<not> isl (executeFrame nop_ei_entries 20000 frame_example) \<and>
   pc (zx_cpu (projr (executeFrame nop_ei_entries 20000 frame_example))) = 0x0038 \<and>
   \<not> iff1 (zx_cpu (projr (executeFrame nop_ei_entries 20000 frame_example))) \<and>
   interruptRequested (zx_ula (projr (executeFrame nop_ei_entries 20000 frame_example)))"
proof -
  from frame_example_run [of nop_ei_entries] obtain z1 T where
    r: "executeFrame nop_ei_entries 20000 frame_example
          = Inr (z1\<lparr>zx_cpu := interrupt (im1_example\<lparr>tstates := T\<rparr>)\<rparr>)"
    and f: "interruptRequested (zx_ula z1)" by blast
  show ?thesis
    unfolding r using f interrupt_im1_example [of T] by simp
qed

text \<open>
  C6, amended. After any sequence of \<open>addCycles\<close> calls from the initial state the
  scanline is below 312 and the scanline T-state below 224, and one more call keeps
  these bounds; the call sets the interrupt request exactly when the counter passes the
  end of scanline 311 and wraps to 0, and otherwise leaves it as it was.
  \<open>checkInterrupt()\<close> reports the request and clears it. A port read, a port write
  and \<open>setTapeInput\<close> leave the request as it was; so does the execution of any
  instruction, whatever the table, and so does \<open>executeFrame\<close>, the acceptance of the
  interrupt at the frame boundary included.
\<close>

theorem ula_scanline_invariant:
  "ula_inv (ticks ULA_new cs) \<and>
   (ula_inv u \<longrightarrow>
      ula_inv (addCycles u c) \<and>
      interruptRequested (addCycles u c) =
        (interruptRequested u \<or>
         312 * 224 \<le> currentScanline u * 224 + scanlineTStates u + c)) \<and>
   checkInterrupt u = (interruptRequested u, u\<lparr>interruptRequested := False\<rparr>) \<and>
   interruptRequested (snd (ULA_read u port)) = interruptRequested u \<and>
   interruptRequested (ULA_write u t port v) = interruptRequested u \<and>
   interruptRequested (setTapeInput u b) = interruptRequested u \<and>
   (executeInstruction table s u = Inr (s', u') \<longrightarrow>
      interruptRequested u' = interruptRequested u) \<and>
   (executeFrame table fuel z = Inr z' \<longrightarrow>
      interruptRequested (zx_ula z') = interruptRequested (zx_ula z))"
  using ticks_inv [OF ULA_new_inv, of cs] addCycles_inv [of u c] addCycles_flag [of u c]
    executeFrame_ula [of table fuel z z'] executeInstruction_counters [of table s u s' u']
    ULA_read_counters [of u port] ULA_write_counters [of u t port v]
  by (auto simp: ula_inv_def checkInterrupt_def Let_def setTapeInput_def)

theorem ula_scanline_invariant_witness:
  "ula_inv (ticks ULA_new [69888, 100]) \<and> ula_inv ULA_new \<and>
   ula_inv (addCycles ULA_new 69888) \<and> interruptRequested (addCycles ULA_new 69888) \<and>
   executeFrame nop_ei_entries 20000 frame_example
     = Inr (projr (executeFrame nop_ei_entries 20000 frame_example)) \<and>
   interruptRequested (zx_ula (projr (executeFrame nop_ei_entries 20000 frame_example)))
     = interruptRequested (zx_ula frame_example)"
proof -
  have e: "executeFrame nop_ei_entries 20000 frame_example
             = Inr (projr (executeFrame nop_ei_entries 20000 frame_example))"
    using frame_example_run [of nop_ei_entries] by auto
  have i: "ula_inv ULA_new" by (rule ULA_new_inv)
  from ula_scanline_invariant [where cs = "[69888, 100]" and u = ULA_new and c = 69888
      and table = nop_ei_entries and fuel = 20000 and z = frame_example
      and z' = "projr (executeFrame nop_ei_entries 20000 frame_example)"] e i
  show ?thesis by (simp add: ULA_new_def)
qed

section \<open>Block transfer: LDI and LDIR\<close>

lemma setFlag_eq:
  "setFlag s f v = s\<lparr>reg_f := (if v then reg_f s OR f else reg_f s AND NOT f)\<rparr>"
  by (simp add: setFlag_def)

lemma writeMem_eq:
  "writeMem s a v =
     s\<lparr>memory := map_option (\<lambda>m. mem_write m (unat a) (unat v)) (memory s)\<rparr>"
  by (simp add: writeMem_def split: option.splits)

lemma getFlag_setFlag_other:
  "f AND g = 0 \<Longrightarrow> getFlag (setFlag s f v) g = getFlag s g"
  unfolding getFlag_def setFlag_def
  by (auto simp: bit_eq_iff bit_simps)

lemma getFlag_setFlag_same:
  "f \<noteq> 0 \<Longrightarrow> getFlag (setFlag s f v) f = v"
  unfolding getFlag_def setFlag_def
  by (auto simp: bit_eq_iff bit_simps)

lemma getFlag_tstates [simp]: "getFlag (s\<lparr>tstates := t\<rparr>) g = getFlag s g"
  by (simp add: getFlag_def)

lemma flag_disjoint:
  "FLAG_X AND FLAG_H = 0" "FLAG_Y AND FLAG_H = 0" "FLAG_N AND FLAG_H = 0" "FLAG_PV AND FLAG_H = 0"
  "FLAG_X AND FLAG_N = 0" "FLAG_Y AND FLAG_N = 0"
  "FLAG_X AND FLAG_PV = 0" "FLAG_Y AND FLAG_PV = 0" "FLAG_N AND FLAG_PV = 0"
  "FLAG_H \<noteq> 0" "FLAG_N \<noteq> 0" "FLAG_PV \<noteq> 0"
  by (simp_all add: FLAG_X_def FLAG_Y_def FLAG_N_def FLAG_H_def FLAG_PV_def)

lemma ldi_regs:
  "memory (ed_LDI s) = memory (writeMem s (getDE s) (readMem s (getHL s)))"
  "getHL (ed_LDI s) = getHL s + 1"
  "getDE (ed_LDI s) = getDE s + 1"
  "getBC (ed_LDI s) = getBC s - 1"
  "tstates (ed_LDI s) = tstates s + 16"
  "pc (ed_LDI s) = pc s"
  by (simp_all add: ed_LDI_def Let_def setFlag_eq writeMem_eq setHL_def setDE_def setBC_def
      getHL_def getDE_def getBC_def)

lemma ldi_flags:
  "\<not> getFlag (ed_LDI s) FLAG_H" "\<not> getFlag (ed_LDI s) FLAG_N"
  "getFlag (ed_LDI s) FLAG_PV = (getBC s - 1 \<noteq> 0)"
  by (simp_all add: ed_LDI_def Let_def getFlag_setFlag_other getFlag_setFlag_same flag_disjoint)
     (simp_all add: setFlag_eq writeMem_eq setHL_def setDE_def setBC_def
      getHL_def getDE_def getBC_def)

lemma ldir_regs:
  "memory (ed_LDIR s) = memory (writeMem s (getDE s) (readMem s (getHL s)))"
  "getHL (ed_LDIR s) = getHL s + 1"
  "getDE (ed_LDIR s) = getDE s + 1"
  "getBC (ed_LDIR s) = getBC s - 1"
  "tstates (ed_LDIR s) = tstates s + (if getBC s - 1 \<noteq> 0 then 21 else 16)"
  "pc (ed_LDIR s) = (if getBC s - 1 \<noteq> 0 then pc s - 2 else pc s)"
  by (simp_all add: ed_LDIR_def Let_def setFlag_eq writeMem_eq setHL_def setDE_def setBC_def
      getHL_def getDE_def getBC_def)

lemma ldir_flags:
  "\<not> getFlag (ed_LDIR s) FLAG_H" "\<not> getFlag (ed_LDIR s) FLAG_N"
  "\<not> getFlag (ed_LDIR s) FLAG_PV"
  by (simp_all add: ed_LDIR_def Let_def getFlag_setFlag_other getFlag_setFlag_same flag_disjoint)

lemma ldi_transfer:
  assumes "memory s = Some m" "length (ram m) = 49152" "0x4000 \<le> getDE s"
  shows "readMem (ed_LDI s) (getDE s) = readMem s (getHL s)"
    "readMem (ed_LDIR s) (getDE s) = readMem s (getHL s)"
  using readMem_writeMem_same [OF assms, of "readMem s (getHL s)"]
    readMem_memory [OF ldi_regs(1), of s "getDE s"]
    readMem_memory [OF ldir_regs(1), of s "getDE s"]
  by simp_all

lemma ldi_other:
  assumes "a \<noteq> getDE s"
  shows "readMem (ed_LDI s) a = readMem s a" "readMem (ed_LDIR s) a = readMem s a"
proof -
  have "getDE s \<noteq> a" using assms by simp
  from readMem_writeMem_other [OF this, of s "readMem s (getHL s)"]
  show "readMem (ed_LDI s) a = readMem s a" "readMem (ed_LDIR s) a = readMem s a"
    using readMem_memory [OF ldi_regs(1), of s a] readMem_memory [OF ldir_regs(1), of s a]
    by simp_all
qed

lemma ldi_rom_example_regs:
  "getHL ldi_rom_example = 0x8000" "getDE ldi_rom_example = 0x1000"
  "memory ldi_rom_example = Some copy_memory"
  by (simp_all add: ldi_rom_example_def ram_stack_example_def getHL_def getDE_def pair16_def)

lemma copy_memory_reads:
  "mem_read copy_memory 0x8000 = 0xaa" "mem_read copy_memory 0x1000 = 0"
  "mem_write copy_memory 0x1000 v = copy_memory"
  by (simp_all add: copy_memory_def Memory_new_def mem_read_def mem_write_def Let_def)

text \<open>
  C5, as stated, fails twice. On a repeat step of LDIR: with \<open>BC = 2\<close> the step leaves
  \<open>BC = 1\<close>, not zero, and PV clear. With DE in ROM: (HL) holds 0xAA, the write to
  0x1000 is ignored, and after the LDI step (DE) still holds 0.
\<close>

theorem ldi_ldir_counterexample:
  "getBC (ed_LDIR ldir_example) \<noteq> 0 \<and> \<not> getFlag (ed_LDIR ldir_example) FLAG_PV \<and>
   readMem ldi_rom_example (getHL ldi_rom_example) = 0xaa \<and>
   readMem (ed_LDI ldi_rom_example) (getDE ldi_rom_example) = 0"
proof -
  have "getBC ldir_example = 2"
    by (simp add: ldir_example_def getBC_def pair16_def)
  then have a: "getBC (ed_LDIR ldir_example) \<noteq> 0 \<and> \<not> getFlag (ed_LDIR ldir_example) FLAG_PV"
    by (simp add: ldir_regs(4) ldir_flags(3))
  have b: "readMem ldi_rom_example (getHL ldi_rom_example) = 0xaa"
    by (simp add: ldi_rom_example_regs readMem_def copy_memory_reads)
  have "memory (ed_LDI ldi_rom_example) = Some copy_memory"
    by (simp add: ldi_regs(1) writeMem_def ldi_rom_example_regs copy_memory_reads)
  then have "readMem (ed_LDI ldi_rom_example) (getDE ldi_rom_example) = 0"
    by (simp add: readMem_def ldi_rom_example_regs copy_memory_reads)
  with a b show ?thesis by simp
qed

text \<open>
  C5, amended. Every step of LDI and of LDIR, repeat steps included, stores the byte at
  (HL) through the bus at DE: where the memory is connected and DE addresses RAM (0x4000
  and above), (DE) then holds the byte that (HL) held, and no other byte of memory
  changes; a store below 0x4000 is ignored. The step increments HL and DE, decrements
  BC and leaves H = 0 and N = 0. LDI leaves PV equal to (BC \<noteq> 0) after the decrement;
  LDIR leaves PV = 0 on every step and moves PC back by two while BC \<noteq> 0.
\<close>

theorem ldi_ldir_step:
  "memory (ed_LDI s) = memory (writeMem s (getDE s) (readMem s (getHL s))) \<and>
   getHL (ed_LDI s) = getHL s + 1 \<and> getDE (ed_LDI s) = getDE s + 1 \<and>
   getBC (ed_LDI s) = getBC s - 1 \<and>
   \<not> getFlag (ed_LDI s) FLAG_H \<and> \<not> getFlag (ed_LDI s) FLAG_N \<and>
   getFlag (ed_LDI s) FLAG_PV = (getBC (ed_LDI s) \<noteq> 0) \<and>
   memory (ed_LDIR s) = memory (writeMem s (getDE s) (readMem s (getHL s))) \<and>
   getHL (ed_LDIR s) = getHL s + 1 \<and> getDE (ed_LDIR s) = getDE s + 1 \<and>
   getBC (ed_LDIR s) = getBC s - 1 \<and>
   \<not> getFlag (ed_LDIR s) FLAG_H \<and> \<not> getFlag (ed_LDIR s) FLAG_N \<and>
   \<not> getFlag (ed_LDIR s) FLAG_PV \<and>
   pc (ed_LDIR s) = (if getBC (ed_LDIR s) \<noteq> 0 then pc s - 2 else pc s) \<and>
   (memory s = Some m \<and> length (ram m) = 49152 \<and> 0x4000 \<le> getDE s \<longrightarrow>
      readMem (ed_LDI s) (getDE s) = readMem s (getHL s) \<and>
      readMem (ed_LDIR s) (getDE s) = readMem s (getHL s)) \<and>
   (\<forall>a. a \<noteq> getDE s \<longrightarrow>
      readMem (ed_LDI s) a = readMem s a \<and> readMem (ed_LDIR s) a = readMem s a)"
  using ldi_transfer [of s m] ldi_other [of _ s]
  by (simp add: ldi_regs ldi_flags ldir_regs ldir_flags)

theorem ldi_ldir_step_witness:
  "getBC (ed_LDIR ldir_example) = 1 \<and> \<not> getFlag (ed_LDIR ldir_example) FLAG_PV \<and>
   pc (ed_LDIR ldir_example) = 0x4000 \<and>
   getBC (ed_LDI ldir_example) = 1 \<and> getFlag (ed_LDI ldir_example) FLAG_PV \<and>
   getHL (ed_LDI ldir_example) = 0x8001 \<and> getDE (ed_LDI ldir_example) = 0x9001 \<and>
   memory ldir_example = Some copy_memory \<and> length (ram copy_memory) = 49152 \<and>
   (0x4000 :: word16) \<le> 0x9000 \<and>
   readMem (ed_LDI ldir_example) 0x9000 = 0xaa \<and>
   readMem (ed_LDIR ldir_example) 0x9000 = 0xaa"
proof -
  have r: "getBC ldir_example = 2" "getHL ldir_example = 0x8000" "getDE ldir_example = 0x9000"
    "pc ldir_example = 0x4002"
    by (simp_all add: ldir_example_def getBC_def getHL_def getDE_def pair16_def)
  have m: "memory ldir_example = Some copy_memory" "length (ram copy_memory) = 49152"
    by (simp_all add: ldir_example_def copy_memory_def Memory_new_def)
  have v: "readMem ldir_example 0x8000 = 0xaa"
    by (simp add: readMem_def m copy_memory_reads)
  from ldi_ldir_step [of ldir_example copy_memory] r m v show ?thesis by simp
qed

section \<open>EI, contention and tone blocks on the code\<close>

lemma executeInstruction_EI:
  assumes "\<not> halted s" "readMem s (pc s) = 0xfb" "table 0xfb = Some entry_EI"
  shows "executeInstruction table s u =
           Inr ((incR (s\<lparr>pc := pc s + 1\<rparr>))\<lparr>enableInterruptsPending := False,
                  tstates := tstates s + 4, iff1 := True, iff2 := True\<rparr>, u)"
  using assms
  by (simp add: executeInstruction_def fetchByte_def Let_def executeOpcode_def
      entry_EI_def op_EI_def incR_def)

lemma ei_example_fetch: "\<not> halted ei_example \<and> readMem ei_example (pc ei_example) = 0xfb"
  by (simp add: ei_example_def Z80CPU_new_def Memory_new_def readMem_def mem_read_def Let_def)

text \<open>
  C1 on the code: \<open>executeInstruction\<close> tests \<open>enableInterruptsPending\<close> right after
  the opcode it has just executed, EI itself included. With the source's entry for EI
  in the table, whatever the other entries and the state of the ULA: after the single
  step that executes EI at 0x4000, IFF1 and IFF2 are set and the pending flag is clear,
  and an interrupt asserted now is accepted before the RETI at 0x4001 has run.
\<close>

theorem ei_enables_immediately:
  assumes "table 0xfb = Some entry_EI"
  shows
  "\<not> isl (executeInstruction table ei_example u) \<and>
   pc (fst (projr (executeInstruction table ei_example u))) = 0x4001 \<and>
   iff1 (fst (projr (executeInstruction table ei_example u))) \<and>
   iff2 (fst (projr (executeInstruction table ei_example u))) \<and>
   \<not> enableInterruptsPending (fst (projr (executeInstruction table ei_example u))) \<and>
   pc (interrupt (fst (projr (executeInstruction table ei_example u)))) = 0x0038"
proof -
  from ei_example_fetch assms have
    "executeInstruction table ei_example u =
       Inr ((incR (ei_example\<lparr>pc := pc ei_example + 1\<rparr>))\<lparr>enableInterruptsPending := False,
              tstates := tstates ei_example + 4, iff1 := True, iff2 := True\<rparr>, u)"
    by (simp add: executeInstruction_EI)
  then show ?thesis
    by (simp add: incR_def interrupt_def Let_def push_def writeMem_def ei_example_def
        Z80CPU_new_def)
qed

theorem ei_enables_immediately_witness:
  "nop_ei_entries 0xfb = Some entry_EI \<and>
   iff1 (fst (projr (executeInstruction nop_ei_entries ei_example ULA_new))) \<and>
   pc (interrupt (fst (projr (executeInstruction nop_ei_entries ei_example ULA_new)))) = 0x0038"
proof -
  have h: "nop_ei_entries 0xfb = Some entry_EI" by (simp add: nop_ei_entries_def)
  from ei_enables_immediately [of nop_ei_entries ULA_new] h show ?thesis by simp
qed

lemma tstates_writeMem: "tstates (writeMem s a v) = tstates s"
  by (simp add: writeMem_def split: option.splits)

lemma contended_ula:
  "currentScanline (addCycles ULA_new (64 * 224)) = 64 \<and>
   scanlineTStates (addCycles ULA_new (64 * 224)) = 0"
  using addCycles_position [of ULA_new "64 * 224"] by (simp add: ULA_new_def)

text \<open>
  C2 on the code: at the start of scanline 64 the delay for address 0x4000 is 6, yet an
  LDI that reads 0x4000 and writes 0x4100 adds its 16 T-states and nothing more, and
  \<open>writeMem\<close> leaves the counter as it was; \<open>readMem\<close> returns a byte and nothing else.
\<close>

theorem contention_not_charged:
  "getContentionDelay (setULA Memory_new (addCycles ULA_new (64 * 224))) 0x4000 = 6 \<and>
   getHL contended_example = 0x4000 \<and> getDE contended_example = 0x4100 \<and>
   tstates (ed_LDI contended_example) = tstates contended_example + 16 \<and>
   tstates (writeMem contended_example 0x4000 0xff) = tstates contended_example"
  using contended_ula
  by (simp add: getContentionDelay_def setULA_def getCurrentScanline_def contentionPattern_def
      Let_def tstates_writeMem ldi_regs(5) contended_example_def Z80CPU_new_def getHL_def
      getDE_def pair16_def)

theorem contention_not_charged_witness:
  "tstates (ed_LDI contended_example) = tstates contended_example + 16"
  using contention_not_charged by simp

lemma update_pure_tone:
  assumes "currentBlock t = Some (PureTone len cnt)" "state t \<noteq> PAUSE"
  shows "update fuel cpu cycles t = Inr (if \<not> playing t \<or> paused t then t else t\<lparr>lastUpdateCycle := cycles\<rparr>)"
  using assms by (simp add: update_def is_standard_or_turbo_def is_pause_def)

lemma update_pulse_sequence:
  assumes "currentBlock t = Some (PulseSequence ps)" "state t \<noteq> PAUSE"
  shows "update fuel cpu cycles t = Inr (if \<not> playing t \<or> paused t then t else t\<lparr>lastUpdateCycle := cycles\<rparr>)"
  using assms by (simp add: update_def is_standard_or_turbo_def is_pause_def)


lemma play_pure_tone:
  "play (Suc n) T0 pure_tone_tape =
     Inr (pure_tone_tape\<lparr>playing := True, lastUpdateCycle := T0,
           currentBlock := Some (PureTone 2168 4), blockIndex := 1, state := PURE_TONE,
           nextEdgeCycle := Num (T0 + 2168)\<rparr>)"
  by (simp add: play_def pure_tone_tape_def Tape_loaded_def Let_def)

lemma play_pulse_sequence:
  "play (Suc n) T0 pulse_sequence_tape =
     Inr (pulse_sequence_tape\<lparr>playing := True, lastUpdateCycle := T0,
           currentBlock := Some (PulseSequence [100, 200]), blockIndex := 1,
           state := PULSE_SEQUENCE, pulseSequence := Some [100, 200],
           nextEdgeCycle := Num (T0 + 100)\<rparr>)"
  by (simp add: play_def pulse_sequence_tape_def Tape_loaded_def Let_def)

lemma updates_pure_tone:
  assumes "currentBlock t = Some (PureTone len cnt)" "state t = PURE_TONE"
  shows "\<exists>t'. updates fuel cs t = Inr t' \<and> lastEarBit t' = lastEarBit t \<and>
           state t' = PURE_TONE \<and> edgeCount t' = edgeCount t \<and>
           nextEdgeCycle t' = nextEdgeCycle t"
  using assms
proof (induction cs arbitrary: t)
  case Nil
  then show ?case by simp
next
  case (Cons c cs)
  let ?t1 = "if \<not> playing t \<or> paused t then t else t\<lparr>lastUpdateCycle := c\<rparr>"
  have u: "update fuel c c t = Inr ?t1"
    using Cons.prems by (simp add: update_pure_tone)
  have "currentBlock ?t1 = Some (PureTone len cnt)" "state ?t1 = PURE_TONE"
    using Cons.prems by simp_all
  from Cons.IH [OF this] u show ?case by auto
qed

lemma updates_pulse_sequence:
  assumes "currentBlock t = Some (PulseSequence ps)" "state t = PULSE_SEQUENCE"
  shows "\<exists>t'. updates fuel cs t = Inr t' \<and> lastEarBit t' = lastEarBit t \<and>
           state t' = PULSE_SEQUENCE \<and> pulseIndex t' = pulseIndex t \<and>
           nextEdgeCycle t' = nextEdgeCycle t"
  using assms
proof (induction cs arbitrary: t)
  case Nil
  then show ?case by simp
next
  case (Cons c cs)
  let ?t1 = "if \<not> playing t \<or> paused t then t else t\<lparr>lastUpdateCycle := c\<rparr>"
  have u: "update fuel c c t = Inr ?t1"
    using Cons.prems by (simp add: update_pulse_sequence)
  have "currentBlock ?t1 = Some (PulseSequence ps)" "state ?t1 = PULSE_SEQUENCE"
    using Cons.prems by simp_all
  from Cons.IH [OF this] u show ?case by auto
qed

text \<open>
  C4 on the code: \<open>update\<close> runs the edge loop for standard and turbo blocks only. A
  pure-tone block of 4 pulses of 2168 T-states, and a pulse sequence of 100 and 200
  T-states, are started by \<open>play\<close> with the first edge scheduled; updates at and far
  beyond the edge times leave the EAR bit at 0 and the player in the same state.
\<close>

theorem pure_tone_never_toggles:
  "\<not> isl (play 10 0 pure_tone_tape) \<and>
   state (projr (play 10 0 pure_tone_tape)) = PURE_TONE \<and>
   nextEdgeCycle (projr (play 10 0 pure_tone_tape)) = Num 2168 \<and>
   lastEarBit (projr (play 10 0 pure_tone_tape)) = 0 \<and>
   \<not> isl (updates 10 [2168, 4336, 6504, 8672, 100000] (projr (play 10 0 pure_tone_tape))) \<and>
   lastEarBit (projr (updates 10 [2168, 4336, 6504, 8672, 100000]
                       (projr (play 10 0 pure_tone_tape)))) = 0 \<and>
   state (projr (updates 10 [2168, 4336, 6504, 8672, 100000]
                  (projr (play 10 0 pure_tone_tape)))) = PURE_TONE \<and>
   \<not> isl (play 10 0 pulse_sequence_tape) \<and>
   state (projr (play 10 0 pulse_sequence_tape)) = PULSE_SEQUENCE \<and>
   nextEdgeCycle (projr (play 10 0 pulse_sequence_tape)) = Num 100 \<and>
   \<not> isl (updates 10 [100, 300, 100000] (projr (play 10 0 pulse_sequence_tape))) \<and>
   lastEarBit (projr (updates 10 [100, 300, 100000]
                       (projr (play 10 0 pulse_sequence_tape)))) = 0 \<and>
   state (projr (updates 10 [100, 300, 100000]
                  (projr (play 10 0 pulse_sequence_tape)))) = PULSE_SEQUENCE"
proof -
  have ten: "(10 :: nat) = Suc 9" by simp
  let ?t0 = "projr (play 10 0 pure_tone_tape)"
  let ?p0 = "projr (play 10 0 pulse_sequence_tape)"
  have p: "play 10 0 pure_tone_tape = Inr ?t0" "currentBlock ?t0 = Some (PureTone 2168 4)"
    "state ?t0 = PURE_TONE" "nextEdgeCycle ?t0 = Num 2168" "lastEarBit ?t0 = 0"
    unfolding ten play_pure_tone by (simp_all add: pure_tone_tape_def Tape_loaded_def)
  have q: "play 10 0 pulse_sequence_tape = Inr ?p0"
    "currentBlock ?p0 = Some (PulseSequence [100, 200])"
    "state ?p0 = PULSE_SEQUENCE" "nextEdgeCycle ?p0 = Num 100" "lastEarBit ?p0 = 0"
    unfolding ten play_pulse_sequence by (simp_all add: pulse_sequence_tape_def Tape_loaded_def)
  from updates_pure_tone [OF p(2,3), of 10 "[2168, 4336, 6504, 8672, 100000]"]
  obtain t' where t': "updates 10 [2168, 4336, 6504, 8672, 100000] ?t0 = Inr t'"
    "lastEarBit t' = lastEarBit ?t0" "state t' = PURE_TONE" by blast
  from updates_pulse_sequence [OF q(2,3), of 10 "[100, 300, 100000]"]
  obtain p' where p': "updates 10 [100, 300, 100000] ?p0 = Inr p'"
    "lastEarBit p' = lastEarBit ?p0" "state p' = PULSE_SEQUENCE" by blast
  have "\<not> isl (play 10 0 pure_tone_tape)" "\<not> isl (play 10 0 pulse_sequence_tape)"
    unfolding ten play_pure_tone play_pulse_sequence by simp_all
  with p(3,4,5) q(3,4,5) t' p' show ?thesis by simp
qed

theorem pure_tone_never_toggles_witness:
  "lastEarBit (projr (updates 10 [2168, 4336, 6504, 8672, 100000]
                       (projr (play 10 0 pure_tone_tape)))) = 0 \<and>
   lastEarBit (projr (updates 10 [100, 300, 100000]
                       (projr (play 10 0 pulse_sequence_tape)))) = 0"
  using pure_tone_never_toggles by simp

end
